theory Spec2Isabelle
  imports Main "HOL-Library.Sublist"
begin

section \<open>JavaScript values\<close>

text \<open>
  The client reads response bodies of type \<open>any\<close>, tests values for truthiness and
  splices them into template literals. \<open>jsval\<close> is the fragment of JavaScript values
  that JSON bodies and the client's own literals are made of (numbers are integers).
\<close>

datatype jsval =
    JUndefined
  | JNull
  | JBool bool
  | JNum int
  | JStr string
  | JArr "jsval list"
  | JObj "(string \<times> jsval) list"

text \<open>\<open>!!v\<close>: undefined, null, false, 0 and the empty string are falsy.\<close>

fun truthy :: "jsval \<Rightarrow> bool" where
  "truthy JUndefined = False"
| "truthy JNull = False"
| "truthy (JBool b) = b"
| "truthy (JNum n) = (n \<noteq> 0)"
| "truthy (JStr s) = (s \<noteq> [])"
| "truthy (JArr xs) = True"
| "truthy (JObj fs) = True"

text \<open>Truthiness of a field declared \<open>string | undefined\<close>.\<close>

fun truthyStr :: "string option \<Rightarrow> bool" where
  "truthyStr None = False"
| "truthyStr (Some s) = (s \<noteq> [])"

text \<open>
  Reading a member of a value that is neither undefined nor null. None of the member
  names the client reads (\<open>server\<close>, \<open>data\<close>, \<open>items\<close>, \<open>definition\<close>,
  \<open>experiment_id\<close>, \<open>id\<close>, \<open>error\<close>, \<open>code\<close>, \<open>message\<close>) is a built-in
  property of a primitive or of an array, so only objects have them.
\<close>

fun member :: "jsval \<Rightarrow> string \<Rightarrow> jsval" where
  "member (JObj fs) k = (case map_of fs k of Some v \<Rightarrow> v | None \<Rightarrow> JUndefined)"
| "member v k = JUndefined"

definition nullish :: "jsval \<Rightarrow> bool" where
  "nullish v = (v = JUndefined \<or> v = JNull)"

text \<open>\<open>v?.k\<close>: undefined on undefined and null.\<close>

definition optMember :: "jsval \<Rightarrow> string \<Rightarrow> jsval" where
  "optMember v k = (if nullish v then JUndefined else member v k)"

section \<open>Errors\<close>

text \<open>
  Modelled from the spec: the module \<open>api-error\<close> is not among the sources. Its five
  exported error codes are the closed taxonomy of the spec's error handling section; a
  code taken from a structured error body is \<open>BodyCode\<close>. \<open>ApiError\<close> carries an error
  code, an optional transport status code and a message, and is not an \<open>AxiosError\<close>.
\<close>

datatype error_code =
    MissingJupyterHubToken
  | ServerNotStarted
  | JhTokenError
  | MissingAccessTokenCookie
  | UnknownApiError
  | BodyCode jsval

record api_error =
  errorCode :: error_code
  httpCode :: "nat option"
  message :: jsval

record axios_response =
  status :: nat
  data :: jsval

record axios_error =
  response :: "axios_response option"

text \<open>What a promise can reject with, or a function throw.\<close>

datatype thrown =
    AxiosError axios_error
  | ApiError api_error
  | TypeError
  | OtherError string

text \<open>\<open>v.k\<close>: a TypeError on undefined and null.\<close>

definition dotMember :: "jsval \<Rightarrow> string \<Rightarrow> thrown + jsval" where
  "dotMember v k = (if nullish v then Inl TypeError else Inr (member v k))"

text \<open>\<open>e.response?.data\<close>\<close>

definition responseData :: "axios_error \<Rightarrow> jsval" where
  "responseData e = (case response e of None \<Rightarrow> JUndefined | Some r \<Rightarrow> data r)"

definition toApiError :: "thrown \<Rightarrow> thrown" where
  "toApiError e =
     (case e of
        AxiosError ae \<Rightarrow>
          ApiError \<lparr>
            errorCode =
              (let c = optMember (optMember (responseData ae) ''error'') ''code''
               in if truthy c then BodyCode c else UnknownApiError),
            httpCode = map_option status (response ae),
            message =
              (let m = optMember (optMember (responseData ae) ''error'') ''message''
               in if truthy m then m else JStr ''Api Error'') \<rparr>
      | _ \<Rightarrow> e)"

section \<open>Reading the session token back from cookie storage\<close>

text \<open>
  \<open>String.prototype.split\<close> with a string separator: the occurrences of the separator
  are found from left to right, each search starting after the previous occurrence.
  \<open>splitScan sep cur s\<close> has the characters of the current part in \<open>cur\<close>, reversed.
  An empty separator splits into single characters.
\<close>

function splitScan :: "string \<Rightarrow> string \<Rightarrow> string \<Rightarrow> string list" where
  "splitScan sep cur [] = [rev cur]"
| "splitScan sep cur (c # cs) =
     (if sep \<noteq> [] \<and> prefix sep (c # cs)
      then rev cur # splitScan sep [] (drop (length sep) (c # cs))
      else splitScan sep (c # cur) cs)"
  by pat_completeness auto
termination
  by (relation "measure (\<lambda>(sep, cur, s). length s)") auto

definition split :: "string \<Rightarrow> string \<Rightarrow> string list" where
  "split sep s = (if sep = [] then map (\<lambda>c. [c]) s else splitScan sep [] s)"

text \<open>\<open>Array.prototype.pop\<close> and \<open>shift\<close>, for the value they return.\<close>

definition pop :: "'a list \<Rightarrow> 'a option" where
  "pop xs = (if xs = [] then None else Some (last xs))"

definition shift :: "'a list \<Rightarrow> 'a option" where
  "shift xs = (case xs of [] \<Rightarrow> None | x # _ \<Rightarrow> Some x)"

text \<open>\<open>getCookieValue\<close> reads \<open>document.cookie\<close>, here its second argument.\<close>

definition getCookieValue :: "string \<Rightarrow> string \<Rightarrow> string option" where
  "getCookieValue k documentCookie =
     (let parts = split (''; '' @ k @ ''='') (''; '' @ documentCookie)
      in if length parts = 2
         then Option.bind (pop parts) (\<lambda>p. shift (split '';'' p))
         else None)"

text \<open>A cookie of the explicit jar, as far as the client reads it.\<close>

record cookie =
  key :: string
  val :: string

definition getValueFromJarCookies :: "string \<Rightarrow> cookie list \<Rightarrow> thrown + string" where
  "getValueFromJarCookies k cookies =
     (case find (\<lambda>c. key c = k) cookies of
        None \<Rightarrow>
          Inl (ApiError \<lparr> errorCode = MissingAccessTokenCookie, httpCode = None,
                          message = JStr ''Access token cookie not found'' \<rparr>)
      | Some c \<Rightarrow> Inr (val c))"

text \<open>
  The cookie string as the browser lays it out: entries separated by \<open>; \<close>, each of
  the form \<open>key=value\<close>. \<open>keyEntries k c\<close> are the entries of \<open>c\<close> whose key is \<open>k\<close>.
\<close>

definition cookieEntries :: "string \<Rightarrow> string list" where
  "cookieEntries c = split ''; '' c"

definition keyEntries :: "string \<Rightarrow> string \<Rightarrow> string list" where
  "keyEntries k c = filter (prefix (k @ ''='')) (cookieEntries c)"

definition entryValue :: "string \<Rightarrow> string \<Rightarrow> string" where
  "entryValue k e = takeWhile (\<lambda>x. x \<noteq> CHR '';'') (drop (length k + 1) e)"

section \<open>The client\<close>

text \<open>
  The headers and the optional cookie jar an HTTP client instance is created from. A jar
  is a mutable object of the cookie library; the model keeps its identity, the number
  of jars created before it.
\<close>

record axios_config =
  headers :: "string \<rightharpoonup> string"
  jar :: "nat option"

text \<open>
  The fields of class \<open>Api\<close>. The instance \<open>axios\<close> is represented by the
  configuration it was created from. \<open>jhUserPath\<close> is declared \<open>string | undefined\<close>
  but is assigned from a response body of type \<open>any\<close>, so it holds a \<open>jsval\<close>.
\<close>

record api =
  axios :: axios_config
  axiosConfig :: axios_config
  baseUrl :: string
  impactApiKey :: "string option"
  impactToken :: "string option"
  jhToken :: string
  jhUserPath :: jsval

definition authHeaders :: "string \<Rightarrow> string option \<Rightarrow> (string \<rightharpoonup> string)" where
  "authHeaders jh tok =
     (if truthyStr tok
      then [''Authorization'' \<mapsto> ''token '' @ jh,
            ''Impact-Authorization'' \<mapsto> ''Bearer '' @ the tok]
      else [''Authorization'' \<mapsto> ''token '' @ jh])"

definition configureAxios :: "api \<Rightarrow> api" where
  "configureAxios a =
     (let cfg = \<lparr> headers = authHeaders (jhToken a) (impactToken a), jar = None \<rparr>
      in a\<lparr> axiosConfig := cfg, axios := cfg \<rparr>)"

record constructor_args =
  argImpactApiKey :: "string option"
  argImpactToken :: "string option"
  argJupyterHubToken :: "string option"
  argServerAddress :: string
  argJupyterHubUserPath :: "string option"

definition endsWith :: "string \<Rightarrow> string \<Rightarrow> bool" where
  "endsWith s t = suffix t s"

text \<open>
  The constructor either throws or returns the new object. Nothing in it touches the
  network: it has no access to the transport at all.
\<close>

definition newApi :: "constructor_args \<Rightarrow> thrown + api" where
  "newApi args =
     (if \<not> truthyStr (argJupyterHubToken args)
      then Inl (ApiError \<lparr> errorCode = MissingJupyterHubToken, httpCode = None,
        message = JStr ''Impact client instantiation failed: The jupyterHubToken parameter is mandatory'' \<rparr>)
      else
        Inr (configureAxios \<lparr>
          axios = \<lparr> headers = Map.empty, jar = None \<rparr>,
          axiosConfig = \<lparr> headers = Map.empty, jar = None \<rparr>,
          baseUrl = argServerAddress args,
          impactApiKey = argImpactApiKey args,
          impactToken = argImpactToken args,
          jhToken = the (argJupyterHubToken args),
          jhUserPath =
            (if truthyStr (argJupyterHubUserPath args)
             then (let p = the (argJupyterHubUserPath args)
                   in JStr (p @ (if endsWith p ''/'' then '''' else ''/'')))
             else JUndefined) \<rparr>))"

text \<open>
  The two factories. Their parameter types make the secret, respectively the token,
  and the gateway credential strings; a JavaScript caller can still leave the gateway
  credential out, which the constructor checks.
\<close>

definition fromImpactApiKey ::
  "string \<Rightarrow> string option \<Rightarrow> string option \<Rightarrow> string \<Rightarrow> thrown + api" where
  "fromImpactApiKey apiKey jupyterHubToken jupyterHubUserPath serverAddress =
     newApi \<lparr> argImpactApiKey = Some apiKey, argImpactToken = None,
              argJupyterHubToken = jupyterHubToken, argServerAddress = serverAddress,
              argJupyterHubUserPath = jupyterHubUserPath \<rparr>"

definition fromImpactToken ::
  "string \<Rightarrow> string option \<Rightarrow> string option \<Rightarrow> string \<Rightarrow> thrown + api" where
  "fromImpactToken token jupyterHubToken jupyterHubUserPath serverAddress =
     newApi \<lparr> argImpactApiKey = None, argImpactToken = Some token,
              argJupyterHubToken = jupyterHubToken, argServerAddress = serverAddress,
              argJupyterHubUserPath = jupyterHubUserPath \<rparr>"

section \<open>The environment and the transport\<close>

datatype http_method = GET | POST | DELETE

text \<open>
  What a request is issued for. The tag is bookkeeping of the model, so that the
  requests of a run can be told apart without comparing URLs.
\<close>

datatype purpose = GatewayLookup | LoginExchange | DomainRequest

text \<open>
  A request as it leaves the client: the headers are those of the instance followed by
  the call's own, \<open>viaJar\<close> is the jar the instance is bound to. \<open>body\<close> is
  \<open>JUndefined\<close> for a call without one.
\<close>

record request =
  purpose :: purpose
  verb :: http_method
  url :: string
  body :: jsval
  reqHeaders :: "string \<rightharpoonup> string"
  viaJar :: "nat option"

text \<open>
  Everything outside the client. \<open>isNode\<close> is \<open>typeof window === 'undefined'\<close>.
  \<open>http\<close> is how the transport settles a request, given the requests issued before
  it. \<open>documentCookie\<close> is \<open>document.cookie\<close> and \<open>jarGetCookies j h u\<close> is what
  \<open>getCookies(u)\<close> of jar \<open>j\<close> settles with, both after the requests \<open>h\<close>.
  \<open>toString\<close> is the string conversion of a template literal on values that are not
  strings. The two modules loaded by \<open>importModule\<close> are dependencies of the package;
  loading them is taken to succeed.
\<close>

record env =
  isNode :: bool
  http :: "request list \<Rightarrow> request \<Rightarrow> thrown + axios_response"
  documentCookie :: "request list \<Rightarrow> string"
  jarGetCookies :: "nat \<Rightarrow> request list \<Rightarrow> string \<Rightarrow> thrown + cookie list"
  toString :: "jsval \<Rightarrow> string"

text \<open>The client, the requests issued so far and the number of jars created.\<close>

record world =
  client :: api
  history :: "request list"
  jarsCreated :: nat

text \<open>\<open>`${v}`\<close>\<close>

definition template :: "env \<Rightarrow> jsval \<Rightarrow> string" where
  "template E v = (case v of JStr s \<Rightarrow> s | _ \<Rightarrow> toString E v)"

text \<open>The request an instance sends for a call.\<close>

definition outgoing ::
  "purpose \<Rightarrow> http_method \<Rightarrow> string \<Rightarrow> jsval \<Rightarrow> (string \<rightharpoonup> string) \<Rightarrow> api \<Rightarrow> request" where
  "outgoing p m u b hs a =
     \<lparr> purpose = p, verb = m, url = u, body = b,
       reqHeaders = headers (axios a) ++ hs, viaJar = jar (axios a) \<rparr>"

text \<open>\<open>this.axios.get\<close>, \<open>post\<close> and \<open>delete\<close>: the request is recorded and settled.\<close>

definition send ::
  "env \<Rightarrow> purpose \<Rightarrow> http_method \<Rightarrow> string \<Rightarrow> jsval \<Rightarrow> (string \<rightharpoonup> string) \<Rightarrow> world
     \<Rightarrow> (thrown + axios_response) \<times> world" where
  "send E p m u b hs w =
     (let rq = outgoing p m u b hs (client w)
      in (http E (history w) rq, w\<lparr> history := history w @ [rq] \<rparr>))"

section \<open>Transport configuration\<close>

definition isConfiguredForNode :: "api \<Rightarrow> bool" where
  "isConfiguredForNode a = (jar (axiosConfig a) \<noteq> None)"

definition isConfiguredForImpact :: "api \<Rightarrow> bool" where
  "isConfiguredForImpact a = truthyStr (headers (axiosConfig a) ''Impact-Authorization'')"

definition getNodeCookieJar :: "api \<Rightarrow> nat option" where
  "getNodeCookieJar a = jar (axiosConfig a)"

definition ensureAxiosConfig :: "env \<Rightarrow> world \<Rightarrow> world" where
  "ensureAxiosConfig E w =
     (let a = client w in
      if isNode E then
        if \<not> isConfiguredForNode a \<or> (truthyStr (impactToken a) \<and> \<not> isConfiguredForImpact a)
        then
          (let cfg = \<lparr> headers = authHeaders (jhToken a) (impactToken a),
                       jar = Some (jarsCreated w) \<rparr>
           in w\<lparr> client := a\<lparr> axiosConfig := cfg, axios := cfg \<rparr>,
                 jarsCreated := Suc (jarsCreated w) \<rparr>)
        else w
      else
        if truthyStr (impactToken a) \<and> \<not> isConfiguredForImpact a
        then
          (let cfg = \<lparr> headers = [''Authorization'' \<mapsto> ''token '' @ jhToken a,
                                  ''Impact-Authorization'' \<mapsto> ''Bearer '' @ the (impactToken a)],
                       jar = None \<rparr>
           in w\<lparr> client := a\<lparr> axiosConfig := cfg, axios := cfg \<rparr> \<rparr>)
        else w)"

definition setImpactToken :: "string \<Rightarrow> world \<Rightarrow> world" where
  "setImpactToken token w =
     w\<lparr> client := configureAxios ((client w)\<lparr> impactToken := Some token \<rparr>) \<rparr>"

section \<open>Session bootstrap\<close>

text \<open>The \<open>catch\<close> block of \<open>ensureJhUserPath\<close>.\<close>

definition lookupFailure :: "thrown \<Rightarrow> thrown" where
  "lookupFailure e =
     (case e of
        AxiosError ae \<Rightarrow>
          ApiError \<lparr> errorCode = JhTokenError, httpCode = map_option status (response ae),
            message = JStr ''Failed to authorize with JupyterHub, invalid token?'' \<rparr>
      | _ \<Rightarrow> e)"

definition lookupUrl :: "api \<Rightarrow> string" where
  "lookupUrl a = baseUrl a @ ''/hub/api/authorizations/token/'' @ jhToken a"

definition ensureJhUserPath :: "env \<Rightarrow> world \<Rightarrow> (thrown + unit) \<times> world" where
  "ensureJhUserPath E w =
     (if truthy (jhUserPath (client w)) then (Inr (), w)
      else
        (case send E GatewayLookup GET (lookupUrl (client w)) JUndefined Map.empty w of
           (Inl e, w1) \<Rightarrow> (Inl (lookupFailure e), w1)
         | (Inr resp, w1) \<Rightarrow>
             (case dotMember (data resp) ''server'' of
                Inl e \<Rightarrow> (Inl (lookupFailure e), w1)
              | Inr server \<Rightarrow>
                  if \<not> truthy server
                  then (Inl (lookupFailure (ApiError \<lparr> errorCode = ServerNotStarted,
                          httpCode = None,
                          message = JStr ''Server not started on JH or missing JH token scope.'' \<rparr>)),
                        w1)
                  else (Inr (), w1\<lparr> client := (client w1)\<lparr> jhUserPath := server \<rparr> \<rparr>))))"

definition loginUrl :: "env \<Rightarrow> api \<Rightarrow> string" where
  "loginUrl E a = baseUrl a @ template E (jhUserPath a) @ ''impact/api/login''"

text \<open>\<open>{ secretKey: this.impactApiKey }\<close>\<close>

definition loginBody :: "api \<Rightarrow> jsval" where
  "loginBody a =
     JObj [(''secretKey'', case impactApiKey a of None \<Rightarrow> JUndefined | Some k \<Rightarrow> JStr k)]"

definition ensureImpactToken :: "env \<Rightarrow> world \<Rightarrow> (thrown + unit) \<times> world" where
  "ensureImpactToken E w =
     (case ensureJhUserPath E (ensureAxiosConfig E w) of
        (Inl e, w2) \<Rightarrow> (Inl e, w2)
      | (Inr u, w2) \<Rightarrow>
          if truthyStr (impactToken (client w2)) then (Inr (), w2)
          else
            (case send E LoginExchange POST (loginUrl E (client w2)) (loginBody (client w2))
                    Map.empty w2 of
               (Inl e, w3) \<Rightarrow> (Inl e, w3)
             | (Inr resp, w3) \<Rightarrow>
                 (case getNodeCookieJar (client w3) of
                    Some nodeCookieJar \<Rightarrow>
                      (case jarGetCookies E nodeCookieJar (history w3)
                              (baseUrl (client w3) @ template E (jhUserPath (client w3))) of
                         Inl e \<Rightarrow> (Inl e, w3)
                       | Inr cookies \<Rightarrow>
                           (case getValueFromJarCookies ''access_token'' cookies of
                              Inl e \<Rightarrow> (Inl e, w3)
                            | Inr v \<Rightarrow>
                                (Inr (), ensureAxiosConfig E
                                   (w3\<lparr> client := (client w3)\<lparr> impactToken := Some v \<rparr> \<rparr>))))
                  | None \<Rightarrow>
                      (Inr (), ensureAxiosConfig E
                         (w3\<lparr> client := (client w3)\<lparr> impactToken :=
                                 getCookieValue ''access_token'' (documentCookie E (history w3)) \<rparr> \<rparr>)))))"

section \<open>Domain operations\<close>

text \<open>
  What a domain operation resolves with: a value read from the response body, or the
  \<open>Experiment\<close> object that \<open>getExperiment\<close> builds from its two identifiers.
\<close>

datatype payload = Json jsval | ExperimentObject string string

text \<open>
  The promise a domain operation returns. It settles the first time its executor
  calls \<open>resolve\<close> or \<open>reject\<close>; if neither is ever called it stays pending.
\<close>

datatype outcome = Pending | Fulfilled payload | Rejected thrown

definition resolve :: "payload \<Rightarrow> outcome \<Rightarrow> outcome" where
  "resolve v out = (case out of Pending \<Rightarrow> Fulfilled v | _ \<Rightarrow> out)"

definition reject :: "thrown \<Rightarrow> outcome \<Rightarrow> outcome" where
  "reject e out = (case out of Pending \<Rightarrow> Rejected e | _ \<Rightarrow> out)"

text \<open>
  \<open>p.then((response) => resolve(f(response)))\<close> on a settled request \<open>p\<close>. The
  callback runs only if \<open>p\<close> is fulfilled; the new promise is rejected with what \<open>p\<close>
  was rejected with, or with what the callback throws.
\<close>

definition thenResolve ::
  "(axios_response \<Rightarrow> thrown + payload) \<Rightarrow> (thrown + axios_response) \<times> outcome
     \<Rightarrow> (thrown + unit) \<times> outcome" where
  "thenResolve f = (\<lambda>(p, out).
     case p of
       Inl e \<Rightarrow> (Inl e, out)
     | Inr r \<Rightarrow> (case f r of Inl e \<Rightarrow> (Inl e, out) | Inr v \<Rightarrow> (Inr (), resolve v out)))"

text \<open>\<open>q.catch((e) => reject(toApiError(e)))\<close>\<close>

definition catchReject :: "(thrown + unit) \<times> outcome \<Rightarrow> (thrown + unit) \<times> outcome" where
  "catchReject = (\<lambda>(q, out).
     case q of
       Inl e \<Rightarrow> (Inr (), reject (toApiError e) out)
     | Inr u \<Rightarrow> (Inr u, out))"

text \<open>
  The executor every domain operation has:
  \<open>this.ensureImpactToken().then(() => { body }).catch((e) => reject(toApiError(e)))\<close>.
  The body issues one request and attaches handlers to it without returning it, so the
  outer \<open>catch\<close> sees the failures of the bootstrap only.
\<close>

definition withSession ::
  "env \<Rightarrow> (world \<Rightarrow> (thrown + axios_response) \<times> world)
     \<Rightarrow> ((thrown + axios_response) \<times> outcome \<Rightarrow> (thrown + unit) \<times> outcome)
     \<Rightarrow> world \<Rightarrow> outcome \<times> world" where
  "withSession E issue handlers w =
     (case ensureImpactToken E w of
        (Inl e, w1) \<Rightarrow> (reject (toApiError e) Pending, w1)
      | (Inr u, w1) \<Rightarrow>
          (case issue w1 of (p, w2) \<Rightarrow> (snd (handlers (p, Pending)), w2)))"

definition apiUrl :: "env \<Rightarrow> api \<Rightarrow> string \<Rightarrow> string" where
  "apiUrl E a rest = baseUrl a @ template E (jhUserPath a) @ ''impact/api/'' @ rest"

text \<open>The expressions the operations resolve with.\<close>

definition dataItems :: "axios_response \<Rightarrow> thrown + payload" where
  \<comment> \<open>\<open>response.data?.data?.items\<close>\<close>
  "dataItems r = Inr (Json (optMember (optMember (data r) ''data'') ''items''))"

definition dataDefinition :: "axios_response \<Rightarrow> thrown + payload" where
  \<comment> \<open>\<open>response.data?.definition\<close>\<close>
  "dataDefinition r = Inr (Json (optMember (data r) ''definition''))"

definition wholeData :: "axios_response \<Rightarrow> thrown + payload" where
  \<comment> \<open>\<open>response.data\<close>\<close>
  "wholeData r = Inr (Json (data r))"

definition nothing :: "axios_response \<Rightarrow> thrown + payload" where
  \<comment> \<open>\<open>resolve()\<close>\<close>
  "nothing r = Inr (Json JUndefined)"

definition dataField :: "string \<Rightarrow> axios_response \<Rightarrow> thrown + payload" where
  \<comment> \<open>\<open>response.data.experiment_id\<close>, \<open>response.data.id\<close>\<close>
  "dataField k r = map_sum id Json (dotMember (data r) k)"

definition strictItems :: "axios_response \<Rightarrow> thrown + payload" where
  \<comment> \<open>\<open>response.data.data.items\<close>\<close>
  "strictItems r =
     (case dotMember (data r) ''data'' of
        Inl e \<Rightarrow> Inl e
      | Inr d \<Rightarrow> map_sum id Json (dotMember d ''items''))"

definition trajectoriesAccept :: "string \<rightharpoonup> string" where
  "trajectoriesAccept = [''Accept'' \<mapsto> ''application/vnd.impact.trajectories.v2+json'']"

definition getWorkspaces :: "env \<Rightarrow> world \<Rightarrow> outcome \<times> world" where
  "getWorkspaces E =
     withSession E
       (\<lambda>w. send E DomainRequest GET (apiUrl E (client w) ''workspaces'') JUndefined Map.empty w)
       (catchReject \<circ> thenResolve dataItems)"

definition getWorkSpacesID :: "env \<Rightarrow> string \<Rightarrow> world \<Rightarrow> outcome \<times> world" where
  "getWorkSpacesID E workspaceId =
     withSession E
       (\<lambda>w. send E DomainRequest GET (apiUrl E (client w) (''workspaces/'' @ workspaceId))
               JUndefined Map.empty w)
       (catchReject \<circ> thenResolve dataDefinition)"

definition getWorkspaceProjects :: "env \<Rightarrow> string \<Rightarrow> world \<Rightarrow> outcome \<times> world" where
  "getWorkspaceProjects E workspaceId =
     withSession E
       (\<lambda>w. send E DomainRequest GET
               (apiUrl E (client w) (''workspaces/'' @ workspaceId @ ''/projects''))
               JUndefined Map.empty w)
       (catchReject \<circ> thenResolve wholeData)"

definition getWorkspaceProjectExperiments ::
  "env \<Rightarrow> string \<Rightarrow> string \<Rightarrow> world \<Rightarrow> outcome \<times> world" where
  "getWorkspaceProjectExperiments E workspaceId projectId =
     withSession E
       (\<lambda>w. send E DomainRequest GET
               (apiUrl E (client w)
                  (''workspaces/'' @ workspaceId @ ''/projects/'' @ projectId @ ''/experiments''))
               JUndefined Map.empty w)
       (catchReject \<circ> thenResolve wholeData)"

definition getExperimentsMetaData :: "env \<Rightarrow> string \<Rightarrow> world \<Rightarrow> outcome \<times> world" where
  "getExperimentsMetaData E workspaceId =
     withSession E
       (\<lambda>w. send E DomainRequest GET
               (apiUrl E (client w) (''workspaces/'' @ workspaceId @ ''/experiments''))
               JUndefined Map.empty w)
       (catchReject \<circ> thenResolve wholeData)"

definition getVariables :: "env \<Rightarrow> string \<Rightarrow> string \<Rightarrow> world \<Rightarrow> outcome \<times> world" where
  "getVariables E workspaceId experimentId =
     withSession E
       (\<lambda>w. send E DomainRequest GET
               (apiUrl E (client w)
                  (''workspaces/'' @ workspaceId @ ''/experiments/'' @ experimentId @ ''/variables''))
               JUndefined Map.empty w)
       (catchReject \<circ> thenResolve wholeData)"

text \<open>
  \<open>createExperiment\<close> sends what \<open>toModelicaExperimentDefinition()\<close> returns; the
  class of the definition is not among the sources, so the value is the argument here.
\<close>

definition createExperiment :: "env \<Rightarrow> jsval \<Rightarrow> string \<Rightarrow> world \<Rightarrow> outcome \<times> world" where
  "createExperiment E experimentDefinition workspaceId =
     withSession E
       (\<lambda>w. send E DomainRequest POST
               (apiUrl E (client w) (''workspaces/'' @ workspaceId @ ''/experiments''))
               (JObj [(''experiment'', experimentDefinition)]) Map.empty w)
       (catchReject \<circ> thenResolve (dataField ''experiment_id''))"

definition cancelExperiment :: "env \<Rightarrow> string \<Rightarrow> string \<Rightarrow> world \<Rightarrow> outcome \<times> world" where
  "cancelExperiment E experimentId workspaceId =
     withSession E
       (\<lambda>w. send E DomainRequest DELETE
               (apiUrl E (client w)
                  (''workspaces/'' @ workspaceId @ ''/experiments/'' @ experimentId @ ''/execution''))
               JUndefined Map.empty w)
       (catchReject \<circ> thenResolve nothing)"

definition createWorkspace ::
  "env \<Rightarrow> string option \<Rightarrow> string \<Rightarrow> world \<Rightarrow> outcome \<times> world" where
  "createWorkspace E description name =
     withSession E
       (\<lambda>w. send E DomainRequest POST (apiUrl E (client w) ''workspaces'')
               (JObj [(''new'', JObj [
                  (''description'', case description of None \<Rightarrow> JUndefined | Some d \<Rightarrow> JStr d),
                  (''name'', JStr name)])])
               Map.empty w)
       (catchReject \<circ> thenResolve (dataField ''id''))"

definition deleteWorkspace :: "env \<Rightarrow> string \<Rightarrow> world \<Rightarrow> outcome \<times> world" where
  "deleteWorkspace E workspaceId =
     withSession E
       (\<lambda>w. send E DomainRequest DELETE (apiUrl E (client w) (''workspaces/'' @ workspaceId))
               JUndefined Map.empty w)
       (catchReject \<circ> thenResolve nothing)"

definition runExperiment ::
  "env \<Rightarrow> string list \<Rightarrow> string \<Rightarrow> string \<Rightarrow> world \<Rightarrow> outcome \<times> world" where
  "runExperiment E cases experimentId workspaceId =
     withSession E
       (\<lambda>w. send E DomainRequest POST
               (apiUrl E (client w)
                  (''workspaces/'' @ workspaceId @ ''/experiments/'' @ experimentId @ ''/execution''))
               (JObj [(''includeCases'', JObj [(''ids'', JArr (map JStr cases))]),
                      (''options'', JObj [(''forceCompilation'', JBool True)])])
               Map.empty w)
       (catchReject \<circ> thenResolve nothing)"

definition getExecutionStatus :: "env \<Rightarrow> string \<Rightarrow> string \<Rightarrow> world \<Rightarrow> outcome \<times> world" where
  "getExecutionStatus E experimentId workspaceId =
     withSession E
       (\<lambda>w. send E DomainRequest GET
               (apiUrl E (client w)
                  (''workspaces/'' @ workspaceId @ ''/experiments/'' @ experimentId @ ''/execution''))
               JUndefined Map.empty w)
       (catchReject \<circ> thenResolve wholeData)"

definition getCustomFunctions :: "env \<Rightarrow> string \<Rightarrow> world \<Rightarrow> outcome \<times> world" where
  "getCustomFunctions E workspaceId =
     withSession E
       (\<lambda>w. send E DomainRequest GET
               (apiUrl E (client w) (''workspaces/'' @ workspaceId @ ''/custom-functions''))
               JUndefined Map.empty w)
       (catchReject \<circ> thenResolve strictItems)"

definition getExperiment :: "env \<Rightarrow> string \<Rightarrow> string \<Rightarrow> world \<Rightarrow> outcome \<times> world" where
  "getExperiment E experimentId workspaceId =
     withSession E
       (\<lambda>w. send E DomainRequest GET
               (apiUrl E (client w)
                  (''workspaces/'' @ workspaceId @ ''/experiments/'' @ experimentId))
               JUndefined [''Accept'' \<mapsto> ''application/vnd.impact.experiment.v2+json''] w)
       (catchReject \<circ> thenResolve (\<lambda>r. Inr (ExperimentObject experimentId workspaceId)))"

definition getCases :: "env \<Rightarrow> string \<Rightarrow> string \<Rightarrow> world \<Rightarrow> outcome \<times> world" where
  "getCases E experimentId workspaceId =
     withSession E
       (\<lambda>w. send E DomainRequest GET
               (apiUrl E (client w)
                  (''workspaces/'' @ workspaceId @ ''/experiments/'' @ experimentId @ ''/cases''))
               JUndefined Map.empty w)
       (catchReject \<circ> thenResolve dataItems)"

text \<open>The request of \<open>getExperimentTrajectories\<close> has a \<open>then\<close> and no \<open>catch\<close>.\<close>

definition getExperimentTrajectories ::
  "env \<Rightarrow> string \<Rightarrow> string list \<Rightarrow> string \<Rightarrow> world \<Rightarrow> outcome \<times> world" where
  "getExperimentTrajectories E experimentId variableNames workspaceId =
     withSession E
       (\<lambda>w. send E DomainRequest POST
               (apiUrl E (client w)
                  (''workspaces/'' @ workspaceId @ ''/experiments/'' @ experimentId
                     @ ''/trajectories''))
               (JObj [(''variable_names'', JArr (map JStr variableNames))])
               trajectoriesAccept w)
       (thenResolve strictItems)"

definition getCaseLog :: "env \<Rightarrow> string \<Rightarrow> string \<Rightarrow> string \<Rightarrow> world \<Rightarrow> outcome \<times> world" where
  "getCaseLog E caseId experimentId workspaceId =
     withSession E
       (\<lambda>w. send E DomainRequest GET
               (apiUrl E (client w)
                  (''workspaces/'' @ workspaceId @ ''/experiments/'' @ experimentId
                     @ ''/cases/'' @ caseId @ ''/log''))
               JUndefined Map.empty w)
       (catchReject \<circ> thenResolve wholeData)"

definition getCaseTrajectories ::
  "env \<Rightarrow> string \<Rightarrow> string \<Rightarrow> string list \<Rightarrow> string \<Rightarrow> world \<Rightarrow> outcome \<times> world" where
  "getCaseTrajectories E caseId experimentId variableNames workspaceId =
     withSession E
       (\<lambda>w. send E DomainRequest POST
               (apiUrl E (client w)
                  (''workspaces/'' @ workspaceId @ ''/experiments/'' @ experimentId
                     @ ''/cases/'' @ caseId @ ''/trajectories''))
               (JObj [(''variable_names'', JArr (map JStr variableNames))])
               trajectoriesAccept w)
       (catchReject \<circ> thenResolve strictItems)"

section \<open>Runs of a client\<close>

text \<open>A call of a domain operation with its arguments, in the order of the class.\<close>

datatype call =
    GetWorkspaces
  | GetWorkSpacesID string
  | GetWorkspaceProjects string
  | GetWorkspaceProjectExperiments string string
  | GetExperimentsMetaData string
  | GetVariables string string
  | CreateExperiment jsval string
  | CancelExperiment string string
  | CreateWorkspace "string option" string
  | DeleteWorkspace string
  | RunExperiment "string list" string string
  | GetExecutionStatus string string
  | GetCustomFunctions string
  | GetExperiment string string
  | GetCases string string
  | GetExperimentTrajectories string "string list" string
  | GetCaseLog string string string
  | GetCaseTrajectories string string "string list" string

fun invoke :: "env \<Rightarrow> call \<Rightarrow> world \<Rightarrow> outcome \<times> world" where
  "invoke E GetWorkspaces = getWorkspaces E"
| "invoke E (GetWorkSpacesID ws) = getWorkSpacesID E ws"
| "invoke E (GetWorkspaceProjects ws) = getWorkspaceProjects E ws"
| "invoke E (GetWorkspaceProjectExperiments ws pr) = getWorkspaceProjectExperiments E ws pr"
| "invoke E (GetExperimentsMetaData ws) = getExperimentsMetaData E ws"
| "invoke E (GetVariables ws ex) = getVariables E ws ex"
| "invoke E (CreateExperiment d ws) = createExperiment E d ws"
| "invoke E (CancelExperiment ex ws) = cancelExperiment E ex ws"
| "invoke E (CreateWorkspace d n) = createWorkspace E d n"
| "invoke E (DeleteWorkspace ws) = deleteWorkspace E ws"
| "invoke E (RunExperiment cs ex ws) = runExperiment E cs ex ws"
| "invoke E (GetExecutionStatus ex ws) = getExecutionStatus E ex ws"
| "invoke E (GetCustomFunctions ws) = getCustomFunctions E ws"
| "invoke E (GetExperiment ex ws) = getExperiment E ex ws"
| "invoke E (GetCases ex ws) = getCases E ex ws"
| "invoke E (GetExperimentTrajectories ex vs ws) = getExperimentTrajectories E ex vs ws"
| "invoke E (GetCaseLog ca ex ws) = getCaseLog E ca ex ws"
| "invoke E (GetCaseTrajectories ca ex vs ws) = getCaseTrajectories E ca ex vs ws"

text \<open>
  What a caller can do with a client once it is constructed. A run performs the actions
  one after the other, each on the state the previous one left.
\<close>

datatype action = Call call | SetImpactToken string

fun perform :: "env \<Rightarrow> action \<Rightarrow> world \<Rightarrow> world" where
  "perform E (Call c) w = snd (invoke E c w)"
| "perform E (SetImpactToken t) w = setImpactToken t w"

fun run :: "env \<Rightarrow> action list \<Rightarrow> world \<Rightarrow> world" where
  "run E [] w = w"
| "run E (x # xs) w = run E xs (perform E x w)"

text \<open>The state right after construction: nothing issued, no jar created.\<close>

definition start :: "api \<Rightarrow> world" where
  "start a = \<lparr> client = a, history = [], jarsCreated = 0 \<rparr>"

text \<open>The requests issued between two states of a run.\<close>

definition issuedSince :: "world \<Rightarrow> world \<Rightarrow> request list" where
  "issuedSince w w' = drop (length (history w)) (history w')"

definition requestsFor :: "purpose \<Rightarrow> request list \<Rightarrow> request list" where
  "requestsFor p rs = filter (\<lambda>r. purpose r = p) rs"

section \<open>Requests of the bootstrap, and example clients\<close>

definition lookupRequest :: "api \<Rightarrow> request" where
  "lookupRequest a = outgoing GatewayLookup GET (lookupUrl a) JUndefined Map.empty a"

definition loginRequest :: "env \<Rightarrow> api \<Rightarrow> request" where
  "loginRequest E a = outgoing LoginExchange POST (loginUrl E a) (loginBody a) Map.empty a"

text \<open>
  The shape the request of every domain operation has: one call of the instance, tagged
  as a domain request, whose own headers leave the two authorization headers alone.
\<close>

definition domainSend :: "env \<Rightarrow> (world \<Rightarrow> (thrown + axios_response) \<times> world) \<Rightarrow> bool" where
  "domainSend E issue =
     (\<forall>w. \<exists>m u b hs. issue w = send E DomainRequest m u b hs w
        \<and> hs ''Impact-Authorization'' = None \<and> hs ''Authorization'' = None)"

text \<open>
  The client of the spec's scenario: gateway credential \<open>tok123\<close>, base address
  \<open>https://host\<close>, routing path \<open>/user/alice/\<close>, application secret \<open>sk_abc\<close>.
\<close>

definition aliceArgs :: constructor_args where
  "aliceArgs = \<lparr> argImpactApiKey = Some ''sk_abc'', argImpactToken = None,
     argJupyterHubToken = Some ''tok123'', argServerAddress = ''https://host'',
     argJupyterHubUserPath = Some ''/user/alice/'' \<rparr>"

definition alice :: world where
  "alice = start (projr (newApi aliceArgs))"

text \<open>The same client without a routing path.\<close>

definition bob :: world where
  "bob = start (projr (newApi (aliceArgs\<lparr> argJupyterHubUserPath := None \<rparr>)))"

text \<open>
  Environments for the examples: every request settles with \<open>reply\<close>, every jar holds
  \<open>cookies\<close>, the document cookie string is \<open>doc\<close>.
\<close>

definition exampleEnv :: "bool \<Rightarrow> (thrown + axios_response) \<Rightarrow> cookie list \<Rightarrow> string \<Rightarrow> env" where
  "exampleEnv node reply cookies doc =
     \<lparr> isNode = node, http = (\<lambda>h r. reply), documentCookie = (\<lambda>h. doc),
       jarGetCookies = (\<lambda>j h u. Inr cookies), toString = (\<lambda>v. ''?'') \<rparr>"

definition ok :: "jsval \<Rightarrow> thrown + axios_response" where
  "ok d = Inr \<lparr> status = 200, data = d \<rparr>"

definition failed :: "nat \<Rightarrow> thrown + axios_response" where
  "failed n = Inl (AxiosError \<lparr> response = Some \<lparr> status = n, data = JUndefined \<rparr> \<rparr>)"

section \<open>Notions used in the proofs\<close>

text \<open>
  \<open>joinWith sep es\<close> writes every part of \<open>es\<close> after a separator, \<open>unmatched sep x rest\<close>
  says that no occurrence of \<open>sep\<close> in \<open>x @ rest\<close> starts inside \<open>x\<close>, and
  \<open>separated sep es\<close> that no part of \<open>es\<close> has such an occurrence in the joined string.
\<close>

definition joinWith :: "string \<Rightarrow> string list \<Rightarrow> string" where
  "joinWith sep es = concat (map (\<lambda>e. sep @ e) es)"

definition unmatched :: "string \<Rightarrow> string \<Rightarrow> string \<Rightarrow> bool" where
  "unmatched sep x rest = (\<forall>i<length x. \<not> prefix sep (drop i x @ rest))"

fun separated :: "string \<Rightarrow> string list \<Rightarrow> bool" where
  "separated sep [] = True"
| "separated sep (e # es) = (unmatched sep e (joinWith sep es) \<and> separated sep es)"

text \<open>
  What every state of a client satisfies: the instance is the one created from the
  configuration, a browser-like process binds no jar, and the session header is set
  only while a session token is held.
\<close>

definition coherent :: "env \<Rightarrow> api \<Rightarrow> bool" where
  "coherent E a =
     (axios a = axiosConfig a
      \<and> (\<not> isNode E \<longrightarrow> jar (axiosConfig a) = None)
      \<and> (\<not> truthyStr (impactToken a) \<longrightarrow> headers (axiosConfig a) ''Impact-Authorization'' = None))"

section \<open>Evaluation and frame lemmas\<close>

lemmas call_defs =
  getWorkspaces_def getWorkSpacesID_def getWorkspaceProjects_def
  getWorkspaceProjectExperiments_def getExperimentsMetaData_def getVariables_def
  createExperiment_def cancelExperiment_def createWorkspace_def deleteWorkspace_def
  runExperiment_def getExecutionStatus_def getCustomFunctions_def getExperiment_def
  getCases_def getExperimentTrajectories_def getCaseLog_def getCaseTrajectories_def

lemmas eval_defs =
  newApi_def configureAxios_def authHeaders_def endsWith_def suffix_to_prefix
  call_defs withSession_def ensureImpactToken_def ensureJhUserPath_def ensureAxiosConfig_def
  isConfiguredForNode_def isConfiguredForImpact_def getNodeCookieJar_def
  send_def outgoing_def loginUrl_def loginBody_def lookupUrl_def apiUrl_def template_def
  getValueFromJarCookies_def setImpactToken_def
  thenResolve_def catchReject_def resolve_def reject_def toApiError_def
  dataItems_def dataDefinition_def wholeData_def nothing_def dataField_def strictItems_def
  dotMember_def optMember_def nullish_def responseData_def
  trajectoriesAccept_def lookupFailure_def
  Let_def

lemma domainSendI:
  "hs ''Impact-Authorization'' = None \<Longrightarrow> hs ''Authorization'' = None \<Longrightarrow>
   domainSend E (\<lambda>w. send E DomainRequest m (u w) b hs w)"
  unfolding domainSend_def by blast

lemma invoke_shape:
  "\<exists>issue handlers. domainSend E issue \<and> invoke E c = withSession E issue handlers"
  by (cases c; simp add: call_defs; intro exI conjI; (rule refl | rule domainSendI);
      simp add: trajectoriesAccept_def)

lemma send_eq:
  "send E p m u b hs w =
     (http E (history w) (outgoing p m u b hs (client w)),
      w\<lparr> history := history w @ [outgoing p m u b hs (client w)] \<rparr>)"
  by (simp add: send_def Let_def)

lemma purpose_outgoing [simp]: "purpose (outgoing p m u b hs a) = p"
  by (simp add: outgoing_def)

lemma reqHeaders_outgoing [simp]:
  "reqHeaders (outgoing p m u b hs a) = headers (axios a) ++ hs"
  by (simp add: outgoing_def)

lemma eac_frame:
  "history (ensureAxiosConfig E w) = history w"
  "jhUserPath (client (ensureAxiosConfig E w)) = jhUserPath (client w)"
  "impactToken (client (ensureAxiosConfig E w)) = impactToken (client w)"
  "impactApiKey (client (ensureAxiosConfig E w)) = impactApiKey (client w)"
  "baseUrl (client (ensureAxiosConfig E w)) = baseUrl (client w)"
  "jhToken (client (ensureAxiosConfig E w)) = jhToken (client w)"
  by (simp_all add: ensureAxiosConfig_def Let_def)

lemma ejp_held:
  "truthy (jhUserPath (client w)) \<Longrightarrow> ensureJhUserPath E w = (Inr (), w)"
  by (simp add: ensureJhUserPath_def)

lemma ejp_frame:
  assumes "ensureJhUserPath E w = (r, w')"
  shows "history w' =
           history w @ (if truthy (jhUserPath (client w)) then [] else [lookupRequest (client w)])"
    and "impactToken (client w') = impactToken (client w)"
    and "impactApiKey (client w') = impactApiKey (client w)"
    and "baseUrl (client w') = baseUrl (client w)"
    and "jhToken (client w') = jhToken (client w)"
    and "axios (client w') = axios (client w)"
    and "axiosConfig (client w') = axiosConfig (client w)"
    and "jarsCreated w' = jarsCreated w"
    and "truthy (jhUserPath (client w)) \<Longrightarrow> jhUserPath (client w') = jhUserPath (client w)"
    and "r = Inr () \<Longrightarrow> truthy (jhUserPath (client w'))"
  using assms
  by (auto simp: ensureJhUserPath_def send_eq lookupRequest_def
           split: if_splits sum.splits prod.splits)

lemma eit_frame:
  assumes "ensureImpactToken E w = (r, w')"
  shows "history w' =
           history w
           @ (if truthy (jhUserPath (client w)) then []
              else [lookupRequest (client (ensureAxiosConfig E w))])
           @ (if fst (ensureJhUserPath E (ensureAxiosConfig E w)) = Inr ()
                 \<and> \<not> truthyStr (impactToken (client w))
              then [loginRequest E (client (snd (ensureJhUserPath E (ensureAxiosConfig E w))))]
              else [])"
    and "impactApiKey (client w') = impactApiKey (client w)"
    and "baseUrl (client w') = baseUrl (client w)"
    and "jhToken (client w') = jhToken (client w)"
    and "truthy (jhUserPath (client w)) \<Longrightarrow> jhUserPath (client w') = jhUserPath (client w)"
    and "truthyStr (impactToken (client w)) \<Longrightarrow> impactToken (client w') = impactToken (client w)"
    and "r = Inr () \<Longrightarrow> truthy (jhUserPath (client w'))"
proof -
  obtain r2 w2 where e2: "ensureJhUserPath E (ensureAxiosConfig E w) = (r2, w2)"
    by fastforce
  note f = ejp_frame[OF e2, unfolded eac_frame]
  show "history w' =
           history w
           @ (if truthy (jhUserPath (client w)) then []
              else [lookupRequest (client (ensureAxiosConfig E w))])
           @ (if fst (ensureJhUserPath E (ensureAxiosConfig E w)) = Inr ()
                 \<and> \<not> truthyStr (impactToken (client w))
              then [loginRequest E (client (snd (ensureJhUserPath E (ensureAxiosConfig E w))))]
              else [])"
    using assms e2 f(1,2)
    by (auto simp: ensureImpactToken_def send_eq loginRequest_def eac_frame
             split: if_splits sum.splits prod.splits option.splits)
  show "impactApiKey (client w') = impactApiKey (client w)"
    using assms e2 f(3)
    by (auto simp: ensureImpactToken_def send_eq eac_frame
             split: if_splits sum.splits prod.splits option.splits)
  show "baseUrl (client w') = baseUrl (client w)"
    using assms e2 f(4)
    by (auto simp: ensureImpactToken_def send_eq eac_frame
             split: if_splits sum.splits prod.splits option.splits)
  show "jhToken (client w') = jhToken (client w)"
    using assms e2 f(5)
    by (auto simp: ensureImpactToken_def send_eq eac_frame
             split: if_splits sum.splits prod.splits option.splits)
  show "jhUserPath (client w') = jhUserPath (client w)" if "truthy (jhUserPath (client w))"
    using assms e2 f(9) that
    by (auto simp: ensureImpactToken_def send_eq eac_frame
             split: if_splits sum.splits prod.splits option.splits)
  show "impactToken (client w') = impactToken (client w)" if "truthyStr (impactToken (client w))"
    using assms e2 f(2) that
    by (auto simp: ensureImpactToken_def send_eq eac_frame
             split: if_splits sum.splits prod.splits option.splits)
  show "truthy (jhUserPath (client w'))" if "r = Inr ()"
    using assms e2 f(10) that
    by (auto simp: ensureImpactToken_def send_eq eac_frame
             split: if_splits sum.splits prod.splits option.splits)
qed

lemma eit_axios:
  assumes "ensureImpactToken E w = (r, w')" "truthyStr (impactToken (client w))"
  shows "axios (client w') = axios (client (ensureAxiosConfig E w))"
proof -
  obtain r2 w2 where e2: "ensureJhUserPath E (ensureAxiosConfig E w) = (r2, w2)"
    by fastforce
  show ?thesis
    using assms e2 ejp_frame(2,6)[OF e2]
    by (auto simp: ensureImpactToken_def eac_frame split: if_splits sum.splits prod.splits)
qed

lemma eac_after_setImpactToken:
  "t \<noteq> [] \<Longrightarrow>
   headers (axios (client (ensureAxiosConfig E (setImpactToken t w)))) =
     [''Authorization'' \<mapsto> ''token '' @ jhToken (client w),
      ''Impact-Authorization'' \<mapsto> ''Bearer '' @ t]"
  by (simp add: ensureAxiosConfig_def setImpactToken_def configureAxios_def authHeaders_def
        isConfiguredForNode_def isConfiguredForImpact_def Let_def)

lemma ws_frame:
  assumes "domainSend E issue"
  shows "\<exists>d. purpose d = DomainRequest
     \<and> history (snd (withSession E issue handlers w)) =
         history (snd (ensureImpactToken E w))
         @ (if fst (ensureImpactToken E w) = Inr () then [d] else [])
     \<and> client (snd (withSession E issue handlers w)) = client (snd (ensureImpactToken E w))
     \<and> jarsCreated (snd (withSession E issue handlers w)) = jarsCreated (snd (ensureImpactToken E w))
     \<and> (\<forall>e. fst (ensureImpactToken E w) = Inl e \<longrightarrow>
           fst (withSession E issue handlers w) = Rejected (toApiError e))"
proof -
  obtain r wb where b: "ensureImpactToken E w = (r, wb)" by fastforce
  obtain m u bd hs where iss: "issue wb = send E DomainRequest m u bd hs wb"
    using assms unfolding domainSend_def by blast
  show ?thesis
    using b iss
    by (intro exI[of _ "outgoing DomainRequest m u bd hs (client wb)"])
       (cases r; simp add: withSession_def send_eq reject_def split: prod.splits)
qed

lemma invoke_frame:
  "\<exists>d. purpose d = DomainRequest
     \<and> history (snd (invoke E c w)) =
         history (snd (ensureImpactToken E w))
         @ (if fst (ensureImpactToken E w) = Inr () then [d] else [])
     \<and> client (snd (invoke E c w)) = client (snd (ensureImpactToken E w))
     \<and> jarsCreated (snd (invoke E c w)) = jarsCreated (snd (ensureImpactToken E w))
     \<and> (\<forall>e. fst (ensureImpactToken E w) = Inl e \<longrightarrow>
           fst (invoke E c w) = Rejected (toApiError e))"
proof -
  obtain issue handlers where sh: "domainSend E issue" "invoke E c = withSession E issue handlers"
    using invoke_shape by blast
  show ?thesis
    unfolding sh(2) by (rule ws_frame[OF sh(1)])
qed

lemma toApiError_ApiError [simp]: "toApiError (ApiError e) = ApiError e"
  by (simp add: toApiError_def)

lemma eac_node_jar:
  "isNode E \<Longrightarrow> jar (axiosConfig (client (ensureAxiosConfig E w))) \<noteq> None"
  by (simp add: ensureAxiosConfig_def isConfiguredForNode_def Let_def)

lemma find_absent: "\<forall>c\<in>set cookies. key c \<noteq> k \<Longrightarrow> find (\<lambda>c. key c = k) cookies = None"
  by (simp add: find_None_iff)

lemma setImpactToken_frame:
  "history (setImpactToken t w) = history w"
  "jhUserPath (client (setImpactToken t w)) = jhUserPath (client w)"
  "impactToken (client (setImpactToken t w)) = Some t"
  by (simp_all add: setImpactToken_def configureAxios_def Let_def)

lemma perform_frame:
  "\<exists>new. history (perform E x w) = history w @ new
     \<and> (truthy (jhUserPath (client w)) \<longrightarrow>
          requestsFor GatewayLookup new = []
          \<and> jhUserPath (client (perform E x w)) = jhUserPath (client w))
     \<and> (truthyStr (impactToken (client w)) \<and> x \<noteq> SetImpactToken [] \<longrightarrow>
          requestsFor LoginExchange new = []
          \<and> truthyStr (impactToken (client (perform E x w))))"
proof (cases x)
  case (SetImpactToken t)
  then show ?thesis
    by (simp add: setImpactToken_frame requestsFor_def)
next
  case (Call c)
  obtain r wb where b: "ensureImpactToken E w = (r, wb)" by fastforce
  obtain d where d: "purpose d = DomainRequest"
     "history (snd (invoke E c w)) = history wb @ (if r = Inr () then [d] else [])"
     "client (snd (invoke E c w)) = client wb"
    using invoke_frame[of E c w] b by auto
  note f = eit_frame[OF b]
  show ?thesis
    using Call d f(1,5,6)
    by (auto simp: requestsFor_def lookupRequest_def loginRequest_def)
qed

lemma run_frame:
  "\<exists>new. history (run E acts w) = history w @ new
     \<and> (truthy (jhUserPath (client w)) \<longrightarrow>
          requestsFor GatewayLookup new = []
          \<and> jhUserPath (client (run E acts w)) = jhUserPath (client w))
     \<and> (truthyStr (impactToken (client w)) \<and> SetImpactToken [] \<notin> set acts \<longrightarrow>
          requestsFor LoginExchange new = []
          \<and> truthyStr (impactToken (client (run E acts w))))"
proof (induction acts arbitrary: w)
  case Nil
  show ?case by (simp add: requestsFor_def)
next
  case (Cons x xs)
  obtain n1 where n1: "history (perform E x w) = history w @ n1"
     "truthy (jhUserPath (client w)) \<longrightarrow>
          requestsFor GatewayLookup n1 = []
          \<and> jhUserPath (client (perform E x w)) = jhUserPath (client w)"
     "truthyStr (impactToken (client w)) \<and> x \<noteq> SetImpactToken [] \<longrightarrow>
          requestsFor LoginExchange n1 = []
          \<and> truthyStr (impactToken (client (perform E x w)))"
    using perform_frame[of E x w] by blast
  obtain n2 where n2: "history (run E xs (perform E x w)) = history (perform E x w) @ n2"
     "truthy (jhUserPath (client (perform E x w))) \<longrightarrow>
          requestsFor GatewayLookup n2 = []
          \<and> jhUserPath (client (run E xs (perform E x w))) = jhUserPath (client (perform E x w))"
     "truthyStr (impactToken (client (perform E x w))) \<and> SetImpactToken [] \<notin> set xs \<longrightarrow>
          requestsFor LoginExchange n2 = []
          \<and> truthyStr (impactToken (client (run E xs (perform E x w))))"
    using Cons.IH[of "perform E x w"] by blast
  show ?case
    using n1 n2
    by (intro exI[of _ "n1 @ n2"]) (auto simp: requestsFor_def)
qed

lemma newApi_path:
  "newApi args = Inr a \<Longrightarrow> truthyStr (argJupyterHubUserPath args) \<Longrightarrow> truthy (jhUserPath a)"
  by (cases "argJupyterHubUserPath args")
     (auto simp: newApi_def configureAxios_def Let_def split: if_splits)

lemma newApi_token:
  "newApi args = Inr a \<Longrightarrow> impactToken a = argImpactToken args"
  by (auto simp: newApi_def configureAxios_def Let_def split: if_splits)

lemma invoke_handlers:
  "\<exists>issue f. domainSend E issue \<and>
     invoke E c = withSession E issue
       (if (\<exists>ex vs ws. c = GetExperimentTrajectories ex vs ws) then thenResolve f
        else catchReject \<circ> thenResolve f)"
  by (cases c; simp add: call_defs; intro exI conjI; (rule refl | rule domainSendI);
      simp add: trajectoriesAccept_def)

lemma alice_client:
  "newApi aliceArgs = Inr (client alice)"
  "fromImpactApiKey ''sk_abc'' (Some ''tok123'') (Some ''/user/alice/'') ''https://host'' = Inr (client alice)"
  "history alice = []"
  "jhUserPath (client alice) = JStr ''/user/alice/''"
  "impactToken (client alice) = None"
  "impactApiKey (client alice) = Some ''sk_abc''"
  "baseUrl (client alice) = ''https://host''"
  by (simp_all add: alice_def aliceArgs_def newApi_def fromImpactApiKey_def start_def
        configureAxios_def endsWith_def suffix_to_prefix Let_def)

section \<open>Splitting the cookie string\<close>

lemma joinWith_simps [simp]:
  "joinWith sep [] = []"
  "joinWith sep (e # es) = sep @ e @ joinWith sep es"
  by (simp_all add: joinWith_def)

lemma unmatched_Nil [simp]: "unmatched sep [] rest"
  by (simp add: unmatched_def)

lemma unmatched_Cons:
  "unmatched sep (a # x) rest = (\<not> prefix sep (a # x @ rest) \<and> unmatched sep x rest)"
  unfolding unmatched_def
  by (auto simp: less_Suc_eq_0_disj)

lemma unmatched_snoc:
  "unmatched sep (x @ [a]) rest = (unmatched sep x (a # rest) \<and> \<not> prefix sep (a # rest))"
  by (induction x) (auto simp: unmatched_Cons)

lemma unmatched_drop: "unmatched sep x rest \<Longrightarrow> unmatched sep (drop n x) rest"
  unfolding unmatched_def by (auto simp: add.commute)

lemma unmatched_longer:
  "unmatched sep x rest \<Longrightarrow> unmatched (sep @ t) x rest"
  unfolding unmatched_def by (auto dest: append_prefixD)

lemma splitScan_chunk:
  "sep \<noteq> [] \<Longrightarrow> unmatched sep x rest \<Longrightarrow>
     splitScan sep cur (x @ rest) = splitScan sep (rev x @ cur) rest"
  by (induction x arbitrary: cur) (auto simp: unmatched_Cons)

lemma splitScan_match:
  "sep \<noteq> [] \<Longrightarrow> splitScan sep cur (sep @ rest) = rev cur # splitScan sep [] rest"
  by (cases sep) auto

lemma splitScan_join:
  "sep \<noteq> [] \<Longrightarrow> joinWith sep (splitScan sep cur s) = sep @ rev cur @ s"
proof (induction sep cur s rule: splitScan.induct)
  case (1 sep cur)
  then show ?case by simp
next
  case (2 sep cur c cs)
  show ?case
  proof (cases "prefix sep (c # cs)")
    case True
    then obtain rest where r: "c # cs = sep @ rest"
      by (auto simp: prefix_def)
    have d: "drop (length sep) (c # cs) = rest"
      by (simp add: r)
    have m: "splitScan sep cur (c # cs) = rev cur # splitScan sep [] rest"
      unfolding r using 2(3) by (rule splitScan_match)
    have "joinWith sep (splitScan sep [] rest) = sep @ rest"
      using 2(1) True 2(3) d by simp
    then show ?thesis
      unfolding m by (simp add: r)
  next
    case False
    with 2 show ?thesis by simp
  qed
qed

lemma splitScan_separated:
  "sep \<noteq> [] \<Longrightarrow> unmatched sep (rev cur) s \<Longrightarrow> separated sep (splitScan sep cur s)"
proof (induction sep cur s rule: splitScan.induct)
  case (1 sep cur)
  then show ?case by simp
next
  case (2 sep cur c cs)
  show ?case
  proof (cases "prefix sep (c # cs)")
    case True
    then obtain rest where r: "c # cs = sep @ rest"
      by (auto simp: prefix_def)
    have d: "drop (length sep) (c # cs) = rest"
      by (simp add: r)
    have "separated sep (splitScan sep [] rest)"
      using 2(1) True 2(3) d by simp
    moreover have "joinWith sep (splitScan sep [] rest) = c # cs"
      using splitScan_join[of sep "[]" rest] 2(3) r by simp
    moreover have m: "splitScan sep cur (c # cs) = rev cur # splitScan sep [] rest"
      unfolding r using 2(3) by (rule splitScan_match)
    ultimately show ?thesis
      using 2(4) unfolding m by simp
  next
    case False
    with 2 show ?thesis
      by (simp add: unmatched_snoc)
  qed
qed

lemma prefix_no_semicolon:
  assumes "x \<notin> set K" "r = [] \<or> hd r = x" "prefix K (e @ r)"
  shows "prefix K e"
proof (cases "length K \<le> length e")
  case True
  with assms(3) show ?thesis
    by (metis prefix_length_prefix prefixI append.right_neutral prefix_append)
next
  case False
  from assms(3) have "prefix K e \<or> (\<exists>t. t \<noteq> [] \<and> prefix t r \<and> K = e @ t)"
    by (auto simp: prefix_append)
  then show ?thesis
  proof
    assume "\<exists>t. t \<noteq> [] \<and> prefix t r \<and> K = e @ t"
    then obtain t where t: "t \<noteq> []" "prefix t r" "K = e @ t" by blast
    then have "r \<noteq> []" by auto
    with assms(2) have "hd r = x" by simp
    moreover from t have "hd t = hd r"
      by (cases t; cases r; auto)
    ultimately have "x \<in> set K"
      using t by (cases t) auto
    with assms(1) show ?thesis by simp
  qed simp
qed

lemma joinWith_head: "sep \<noteq> [] \<Longrightarrow> joinWith sep es = [] \<or> hd (joinWith sep es) = hd sep"
  by (cases es) auto


lemma key_chunk_unmatched:
  assumes "unmatched ''; '' e r" "r = [] \<or> hd r = CHR '';''" "CHR '';'' \<notin> set K"
    "\<not> prefix K e"
  shows "unmatched (''; '' @ K) (''; '' @ e) r"
proof -
  have "\<not> prefix K (e @ r)"
    using prefix_no_semicolon[OF assms(3,2)] assms(4) by blast
  moreover have "unmatched (''; '' @ K) e r"
    using assms(1) by (rule unmatched_longer)
  ultimately show ?thesis
    by (simp add: unmatched_Cons)
qed

lemma key_scan_none:
  assumes "CHR '';'' \<notin> set K"
  shows "separated ''; '' es \<Longrightarrow> filter (prefix K) es = [] \<Longrightarrow>
     splitScan (''; '' @ K) cur (joinWith ''; '' es) = [rev cur @ joinWith ''; '' es]"
proof (induction es arbitrary: cur)
  case Nil
  then show ?case by simp
next
  case (Cons e es)
  have np: "\<not> prefix K e" and rest: "filter (prefix K) es = []"
    using Cons.prems(2) by (auto split: if_splits)
  have u: "unmatched (''; '' @ K) (''; '' @ e) (joinWith ''; '' es)"
    using Cons.prems(1) joinWith_head[of "''; ''" es] assms np
    by (intro key_chunk_unmatched) auto
  have "splitScan (''; '' @ K) cur ((''; '' @ e) @ joinWith ''; '' es)
      = splitScan (''; '' @ K) (rev (''; '' @ e) @ cur) (joinWith ''; '' es)"
    using u by (intro splitScan_chunk) auto
  also have "\<dots> = [rev (rev (''; '' @ e) @ cur) @ joinWith ''; '' es]"
    using Cons.IH[of "rev (''; '' @ e) @ cur"] Cons.prems(1) rest by simp
  finally show ?case by simp
qed

lemma key_scan_length:
  assumes "CHR '';'' \<notin> set K"
  shows "separated ''; '' es \<Longrightarrow>
     length (splitScan (''; '' @ K) cur (joinWith ''; '' es)) = Suc (length (filter (prefix K) es))"
proof (induction es arbitrary: cur)
  case Nil
  then show ?case by simp
next
  case (Cons e es)
  let ?J = "joinWith ''; '' es"
  show ?case
  proof (cases "prefix K e")
    case True
    then obtain e' where e: "e = K @ e'"
      by (auto simp: prefix_def)
    have "unmatched ''; '' e' ?J"
      using Cons.prems(1) unmatched_drop[of "''; ''" e ?J "length K"]
      by (simp add: e)
    then have ue: "unmatched (''; '' @ K) e' ?J"
      by (rule unmatched_longer)
    have "splitScan (''; '' @ K) cur (joinWith ''; '' (e # es))
        = splitScan (''; '' @ K) cur ((''; '' @ K) @ (e' @ ?J))"
      by (simp add: e)
    also have "\<dots> = rev cur # splitScan (''; '' @ K) [] (e' @ ?J)"
      by (intro splitScan_match) simp
    also have "\<dots> = rev cur # splitScan (''; '' @ K) (rev e' @ []) ?J"
      using ue by (simp add: splitScan_chunk)
    finally show ?thesis
      using Cons.IH[of "rev e' @ []"] Cons.prems True by simp
  next
    case False
    have u: "unmatched (''; '' @ K) (''; '' @ e) ?J"
      using Cons.prems joinWith_head[of "''; ''" es] assms False
      by (intro key_chunk_unmatched) auto
    have "splitScan (''; '' @ K) cur ((''; '' @ e) @ ?J)
        = splitScan (''; '' @ K) (rev (''; '' @ e) @ cur) ?J"
      using u by (intro splitScan_chunk) auto
    then show ?thesis
      using Cons.IH[of "rev (''; '' @ e) @ cur"] Cons.prems False by simp
  qed
qed

lemma takeWhile_stop:
  "r = [] \<or> hd r = x \<Longrightarrow> takeWhile (\<lambda>c. c \<noteq> x) (s @ r) = takeWhile (\<lambda>c. c \<noteq> x) s"
  by (induction s) (cases r; auto)+

lemma key_scan_last:
  assumes "CHR '';'' \<notin> set K"
  shows "separated ''; '' es \<Longrightarrow> filter (prefix K) es = [e1] \<Longrightarrow>
     takeWhile (\<lambda>c. c \<noteq> CHR '';'') (last (splitScan (''; '' @ K) cur (joinWith ''; '' es)))
       = takeWhile (\<lambda>c. c \<noteq> CHR '';'') (drop (length K) e1)"
proof (induction es arbitrary: cur)
  case Nil
  then show ?case by simp
next
  case (Cons e es)
  let ?J = "joinWith ''; '' es"
  show ?case
  proof (cases "prefix K e")
    case True
    then obtain e' where e: "e = K @ e'"
      by (auto simp: prefix_def)
    have e1: "e1 = e" and rest: "filter (prefix K) es = []"
      using Cons.prems(2) True by auto
    have "unmatched ''; '' e' ?J"
      using Cons.prems(1) unmatched_drop[of "''; ''" e ?J "length K"]
      by (simp add: e)
    then have ue: "unmatched (''; '' @ K) e' ?J"
      by (rule unmatched_longer)
    have "splitScan (''; '' @ K) cur (joinWith ''; '' (e # es))
        = splitScan (''; '' @ K) cur ((''; '' @ K) @ (e' @ ?J))"
      by (simp add: e)
    also have "\<dots> = rev cur # splitScan (''; '' @ K) [] (e' @ ?J)"
      by (intro splitScan_match) simp
    also have "\<dots> = rev cur # splitScan (''; '' @ K) (rev e' @ []) ?J"
      using ue by (simp add: splitScan_chunk)
    also have "\<dots> = [rev cur, e' @ ?J]"
      using key_scan_none[OF assms, of es "rev e' @ []"] Cons.prems(1) rest by simp
    finally show ?thesis
      using joinWith_head[of "''; ''" es]
      by (simp add: e1 e takeWhile_stop)
  next
    case False
    have u: "unmatched (''; '' @ K) (''; '' @ e) ?J"
      using Cons.prems joinWith_head[of "''; ''" es] assms False
      by (intro key_chunk_unmatched) auto
    have "splitScan (''; '' @ K) cur ((''; '' @ e) @ ?J)
        = splitScan (''; '' @ K) (rev (''; '' @ e) @ cur) ?J"
      using u by (intro splitScan_chunk) auto
    then show ?thesis
      using Cons.IH[of "rev (''; '' @ e) @ cur"] Cons.prems False by simp
  qed
qed

lemma shift_first_part:
  "shift (splitScan [x] cur s) = Some (rev cur @ takeWhile (\<lambda>c. c \<noteq> x) s)"
  by (induction s arbitrary: cur) (auto simp: shift_def)

lemma splitScan_nonempty: "splitScan sep cur s \<noteq> []"
  by (induction sep cur s rule: splitScan.induct) auto

lemma getCookieValue_entries:
  assumes "CHR '';'' \<notin> set k"
  shows "getCookieValue k c =
     (case keyEntries k c of [e] \<Rightarrow> Some (entryValue k e) | _ \<Rightarrow> None)"
proof -
  let ?K = "k @ ''=''"
  let ?es = "splitScan ''; '' [] c"
  have K: "CHR '';'' \<notin> set ?K"
    using assms by simp
  have sep: "separated ''; '' ?es"
    by (intro splitScan_separated) simp_all
  have j: "''; '' @ c = joinWith ''; '' ?es"
    using splitScan_join[of "''; ''" "[]" c] by simp
  have parts: "split (''; '' @ k @ ''='') (''; '' @ c)
     = splitScan (''; '' @ ?K) [] (joinWith ''; '' ?es)"
    unfolding j[symmetric] by (simp add: split_def)
  have es: "keyEntries k c = filter (prefix ?K) ?es"
    by (simp add: keyEntries_def cookieEntries_def split_def)
  have len: "length (split (''; '' @ k @ ''='') (''; '' @ c)) = Suc (length (keyEntries k c))"
    unfolding parts es by (rule key_scan_length[OF K sep])
  show ?thesis
  proof (cases "keyEntries k c")
    case Nil
    with len show ?thesis
      by (simp add: getCookieValue_def)
  next
    case (Cons e es')
    show ?thesis
    proof (cases es')
      case Nil
      have one: "filter (prefix ?K) ?es = [e]"
        using Cons Nil es by simp
      have v: "takeWhile (\<lambda>c. c \<noteq> CHR '';'')
                 (last (split (''; '' @ k @ ''='') (''; '' @ c)))
               = entryValue k e"
        unfolding parts entryValue_def
        using key_scan_last[OF K sep one, of "[]"] by simp
      have ne: "split (''; '' @ k @ ''='') (''; '' @ c) \<noteq> []"
        unfolding parts by (rule splitScan_nonempty)
      have "getCookieValue k c =
          shift (split '';'' (last (split (''; '' @ k @ ''='') (''; '' @ c))))"
        using len Cons Nil ne by (simp add: getCookieValue_def pop_def)
      also have "\<dots> = Some (entryValue k e)"
        using shift_first_part[of "CHR '';''" "[]"] v by (simp add: split_def)
      finally show ?thesis
        using Cons Nil by simp
    next
      case (Cons e2 es2)
      with len \<open>keyEntries k c = e # es'\<close> show ?thesis
        by (simp add: getCookieValue_def)
    qed
  qed
qed

section \<open>The state invariant\<close>

lemma coherent_new: "newApi args = Inr a \<Longrightarrow> coherent E a"
  by (auto simp: newApi_def configureAxios_def authHeaders_def coherent_def Let_def
        split: if_splits)

lemma coherent_setImpactToken: "coherent E (client (setImpactToken t w))"
  by (simp add: setImpactToken_def configureAxios_def authHeaders_def coherent_def Let_def)

lemma coherent_eac: "coherent E (client w) \<Longrightarrow> coherent E (client (ensureAxiosConfig E w))"
  by (simp add: ensureAxiosConfig_def authHeaders_def coherent_def Let_def)

lemma coherent_token:
  "coherent E a \<Longrightarrow> \<not> truthyStr (impactToken a) \<Longrightarrow> coherent E (a\<lparr> impactToken := t \<rparr>)"
  by (simp add: coherent_def)

lemma coherent_ejp:
  assumes "ensureJhUserPath E w = (r, w')" "coherent E (client w)"
  shows "coherent E (client w')"
  using assms(2) ejp_frame(2,6,7)[OF assms(1)]
  by (simp add: coherent_def)

lemma coherent_eit:
  assumes "ensureImpactToken E w = (r, w')" "coherent E (client w)"
  shows "coherent E (client w')"
proof -
  obtain r2 w2 where e2: "ensureJhUserPath E (ensureAxiosConfig E w) = (r2, w2)"
    by fastforce
  have c2: "coherent E (client w2)"
    using coherent_ejp[OF e2] coherent_eac[OF assms(2)] by simp
  have k: "coherent E (client (ensureAxiosConfig E (w3\<lparr> client := (client w3)\<lparr> impactToken := t \<rparr> \<rparr>)))"
    if "client w3 = client w2" "\<not> truthyStr (impactToken (client w2))" for w3 t
    using coherent_eac[of E "w3\<lparr> client := (client w3)\<lparr> impactToken := t \<rparr> \<rparr>"]
      coherent_token[OF c2 that(2), of t] that(1)
    by simp
  show ?thesis
    using assms(1) e2 c2 k
    by (auto simp: ensureImpactToken_def send_eq
          split: if_splits sum.splits prod.splits option.splits)
qed

lemma coherent_perform: "coherent E (client w) \<Longrightarrow> coherent E (client (perform E x w))"
proof (cases x)
  case (SetImpactToken t)
  then show ?thesis by (simp add: coherent_setImpactToken)
next
  case (Call c)
  assume c: "coherent E (client w)"
  obtain r wb where b: "ensureImpactToken E w = (r, wb)" by fastforce
  have "client (snd (invoke E c w)) = client wb"
    using invoke_frame[of E c w] b by auto
  then show ?thesis
    using coherent_eit[OF b c] Call by simp
qed

lemma coherent_run: "coherent E (client w) \<Longrightarrow> coherent E (client (run E acts w))"
  by (induction acts arbitrary: w) (auto intro: coherent_perform)

lemma eac_browser_idle:
  "\<not> isNode E \<Longrightarrow> \<not> truthyStr (impactToken (client w)) \<Longrightarrow> ensureAxiosConfig E w = w"
  by (simp add: ensureAxiosConfig_def)

lemma no_entry_no_value:
  "keyEntries ''access_token'' d = [] \<Longrightarrow> getCookieValue ''access_token'' d = None"
  using getCookieValue_entries[of "''access_token''" d] by simp

section \<open>Construction\<close>

text \<open>
  Claim C9. Constructing a client whose gateway credential is absent or empty throws
  \<open>MissingJupyterHubToken\<close>, through the constructor and through either factory. The
  constructor is a function of its arguments alone: it is given no transport, so the
  throw comes before any network call.
\<close>

theorem construction_requires_gateway_credential:
  assumes "jh = None \<or> jh = Some []"
  shows "newApi (args\<lparr> argJupyterHubToken := jh \<rparr>) =
       Inl (ApiError \<lparr> errorCode = MissingJupyterHubToken, httpCode = None,
         message = JStr ''Impact client instantiation failed: The jupyterHubToken parameter is mandatory'' \<rparr>)
     \<and> fromImpactApiKey k jh p s = newApi (args\<lparr> argJupyterHubToken := jh \<rparr>)
     \<and> fromImpactToken t jh p s = newApi (args\<lparr> argJupyterHubToken := jh \<rparr>)"
  using assms by (auto simp: newApi_def fromImpactApiKey_def fromImpactToken_def)

theorem construction_requires_gateway_credential_witness:
  "(Some [] = None \<or> Some [] = Some ([] :: string))
   \<and> newApi (aliceArgs\<lparr> argJupyterHubToken := Some [] \<rparr>) =
       Inl (ApiError \<lparr> errorCode = MissingJupyterHubToken, httpCode = None,
         message = JStr ''Impact client instantiation failed: The jupyterHubToken parameter is mandatory'' \<rparr>)
   \<and> fromImpactApiKey ''sk_abc'' (Some []) None ''https://host'' =
       newApi (aliceArgs\<lparr> argJupyterHubToken := Some [] \<rparr>)
   \<and> fromImpactToken ''abc'' (Some []) None ''https://host'' =
       newApi (aliceArgs\<lparr> argJupyterHubToken := Some [] \<rparr>)"
  using construction_requires_gateway_credential
    [of "Some []" aliceArgs "''sk_abc''" None "''https://host''" "''abc''"]
  by simp

section \<open>A session token supplied from outside\<close>

text \<open>
  Claim C7, as the code has it. \<open>setImpactToken\<close> rebuilds the transport configuration
  and the instance with the gateway header and, for a non-empty token, the session
  header; the rebuilt configuration binds no cookie jar. The jar binding is therefore
  the same before and after exactly when no jar was bound before.
\<close>

theorem setImpactToken_rebuilds_without_jar:
  "axiosConfig (client (setImpactToken t w)) =
     \<lparr> headers = authHeaders (jhToken (client w)) (Some t), jar = None \<rparr>
   \<and> axios (client (setImpactToken t w)) = axiosConfig (client (setImpactToken t w))
   \<and> headers (axiosConfig (client (setImpactToken t w))) ''Authorization'' =
       Some (''token '' @ jhToken (client w))
   \<and> headers (axiosConfig (client (setImpactToken t w))) ''Impact-Authorization'' =
       (if t = [] then None else Some (''Bearer '' @ t))
   \<and> (jar (axiosConfig (client (setImpactToken t w))) = jar (axiosConfig (client w)))
       = (jar (axiosConfig (client w)) = None)"
proof -
  let ?cfg = "\<lparr> headers = authHeaders (jhToken (client w)) (Some t), jar = None \<rparr>"
  have rebuilt: "client (setImpactToken t w) =
      (client w)\<lparr> impactToken := Some t, axiosConfig := ?cfg, axios := ?cfg \<rparr>"
    by (simp add: setImpactToken_def configureAxios_def Let_def)
  have gateway: "headers ?cfg ''Authorization'' = Some (''token '' @ jhToken (client w))"
    by (simp add: authHeaders_def)
  have session: "headers ?cfg ''Impact-Authorization'' =
      (if t = [] then None else Some (''Bearer '' @ t))"
    by (simp add: authHeaders_def)
  have binding: "(jar ?cfg = jar (axiosConfig (client w))) = (jar (axiosConfig (client w)) = None)"
    by auto
  show ?thesis
    unfolding rebuilt using gateway session binding by simp
qed

text \<open>
  A client in a headless process has a jar bound after its first call; the jar is gone
  after \<open>setImpactToken\<close>.
\<close>

theorem setImpactToken_keeps_jar_counterexample:
  "jar (axiosConfig (client (snd (invoke
      (exampleEnv True (ok (JObj [])) [\<lparr> key = ''access_token'', val = ''abc'' \<rparr>] [])
      GetWorkspaces alice)))) = Some 1
   \<and> jar (axiosConfig (client (setImpactToken ''newtok'' (snd (invoke
      (exampleEnv True (ok (JObj [])) [\<lparr> key = ''access_token'', val = ''abc'' \<rparr>] [])
      GetWorkspaces alice))))) = None"
  by (simp add: eval_defs
          alice_def aliceArgs_def exampleEnv_def ok_def start_def)

text \<open>
  Claim C8. After \<open>setImpactToken t\<close> with a non-empty token, the next domain call
  issues no login exchange, every request it issues carries the session header
  \<open>Bearer t\<close>, and when its bootstrap succeeds it issues exactly one domain request.
\<close>

theorem supplied_token_is_used_without_login:
  assumes "t \<noteq> []"
  shows "let w1 = setImpactToken t w; w2 = snd (invoke E c w1); new = issuedSince w1 w2 in
     history w2 = history w1 @ new
   \<and> requestsFor LoginExchange new = []
   \<and> (\<forall>r\<in>set new. reqHeaders r ''Impact-Authorization'' = Some (''Bearer '' @ t))
   \<and> (fst (ensureImpactToken E w1) = Inr () \<longrightarrow> (\<exists>r. requestsFor DomainRequest new = [r]))"
proof -
  define w1 where "w1 = setImpactToken t w"
  obtain issue handlers where sh: "domainSend E issue" "invoke E c = withSession E issue handlers"
    using invoke_shape by blast
  obtain r w1' where b: "ensureImpactToken E w1 = (r, w1')" by fastforce
  have tok: "truthyStr (impactToken (client w1))"
    using assms by (simp add: w1_def setImpactToken_def configureAxios_def Let_def)
  have hd: "headers (axios (client (ensureAxiosConfig E w1))) ''Impact-Authorization''
              = Some (''Bearer '' @ t)"
    using assms by (simp add: w1_def eac_after_setImpactToken)
  have ax: "axios (client w1') = axios (client (ensureAxiosConfig E w1))"
    using eit_axios[OF b tok] .
  have h1: "history w1' = history w1 @ (if truthy (jhUserPath (client w1)) then []
              else [lookupRequest (client (ensureAxiosConfig E w1))])"
    using eit_frame(1)[OF b] tok by simp
  obtain m u bd hs where iss: "issue w1' = send E DomainRequest m u bd hs w1'"
      "hs ''Impact-Authorization'' = None"
    using sh(1) unfolding domainSend_def by blast
  have "history (snd (invoke E c w1)) = history w1 @ issuedSince w1 (snd (invoke E c w1))
   \<and> requestsFor LoginExchange (issuedSince w1 (snd (invoke E c w1))) = []
   \<and> (\<forall>r\<in>set (issuedSince w1 (snd (invoke E c w1))).
         reqHeaders r ''Impact-Authorization'' = Some (''Bearer '' @ t))
   \<and> (fst (ensureImpactToken E w1) = Inr () \<longrightarrow>
        (\<exists>r. requestsFor DomainRequest (issuedSince w1 (snd (invoke E c w1))) = [r]))"
    using b h1 hd ax iss
    by (cases r)
       (auto simp: sh(2) withSession_def issuedSince_def requestsFor_def send_eq
          lookupRequest_def map_add_def split: prod.splits)
  then show ?thesis
    by (simp add: w1_def Let_def)
qed

theorem supplied_token_is_used_without_login_witness:
  "''newtok'' \<noteq> []
   \<and> fst (ensureImpactToken (exampleEnv True (ok (JObj [(''server'', JStr ''/user/bob/'')])) [] [])
        (setImpactToken ''newtok'' bob)) = Inr ()
   \<and> requestsFor LoginExchange (issuedSince (setImpactToken ''newtok'' bob)
        (snd (invoke (exampleEnv True (ok (JObj [(''server'', JStr ''/user/bob/'')])) [] [])
           GetWorkspaces (setImpactToken ''newtok'' bob)))) = []
   \<and> map purpose (issuedSince (setImpactToken ''newtok'' bob)
        (snd (invoke (exampleEnv True (ok (JObj [(''server'', JStr ''/user/bob/'')])) [] [])
           GetWorkspaces (setImpactToken ''newtok'' bob))))
       = [GatewayLookup, DomainRequest]
   \<and> map (\<lambda>r. reqHeaders r ''Impact-Authorization'') (issuedSince (setImpactToken ''newtok'' bob)
        (snd (invoke (exampleEnv True (ok (JObj [(''server'', JStr ''/user/bob/'')])) [] [])
           GetWorkspaces (setImpactToken ''newtok'' bob))))
       = [Some ''Bearer newtok'', Some ''Bearer newtok'']"
proof -
  define E where "E = exampleEnv True (ok (JObj [(''server'', JStr ''/user/bob/'')])) [] []"
  define w1 where "w1 = setImpactToken ''newtok'' bob"
  have new: "issuedSince w1 (snd (invoke E GetWorkspaces w1)) =
    [\<lparr> purpose = GatewayLookup, verb = GET,
        url = ''https://host/hub/api/authorizations/token/tok123'', body = JUndefined,
        reqHeaders = [''Authorization'' \<mapsto> ''token tok123'',
                      ''Impact-Authorization'' \<mapsto> ''Bearer newtok''],
        viaJar = Some 0 \<rparr>,
     \<lparr> purpose = DomainRequest, verb = GET,
        url = ''https://host/user/bob/impact/api/workspaces'', body = JUndefined,
        reqHeaders = [''Authorization'' \<mapsto> ''token tok123'',
                      ''Impact-Authorization'' \<mapsto> ''Bearer newtok''],
        viaJar = Some 0 \<rparr>]"
    by (simp add: E_def w1_def eval_defs
          bob_def aliceArgs_def exampleEnv_def ok_def start_def issuedSince_def)
  have b: "fst (ensureImpactToken E w1) = Inr ()"
    by (simp add: E_def w1_def eval_defs
          bob_def aliceArgs_def exampleEnv_def ok_def start_def)
  have h: "''newtok'' \<noteq> []" by simp
  from supplied_token_is_used_without_login[OF h, of bob E GetWorkspaces]
  have "requestsFor LoginExchange (issuedSince w1 (snd (invoke E GetWorkspaces w1))) = []"
    by (simp only: Let_def w1_def[symmetric])
  with new b show ?thesis
    by (simp add: E_def[symmetric] w1_def[symmetric])
qed

section \<open>Bootstrap\<close>




text \<open>
  Claim C4. In a headless process, when the bootstrap reaches the login exchange (the
  routing path is resolved and no session token is held), the login exchange succeeds
  and the jar's cookies for the routing-path URL hold none named \<open>access_token\<close>,
  the bootstrap and the domain call reject with \<open>MissingAccessTokenCookie\<close>; the login
  exchange is the last request issued and no domain request is issued.
\<close>

theorem jar_without_access_token_rejects:
  assumes node: "isNode E"
    and path: "ensureJhUserPath E (ensureAxiosConfig E w) = (Inr (), w2)"
    and notok: "\<not> truthyStr (impactToken (client w))"
    and login: "http E (history w2) (loginRequest E (client w2)) = Inr resp"
    and jarc: "jarGetCookies E (the (jar (axiosConfig (client w2))))
                 (history w2 @ [loginRequest E (client w2)])
                 (baseUrl (client w2) @ template E (jhUserPath (client w2))) = Inr cookies"
    and none: "\<forall>c\<in>set cookies. key c \<noteq> ''access_token''"
  shows "fst (ensureImpactToken E w) =
           Inl (ApiError \<lparr> errorCode = MissingAccessTokenCookie, httpCode = None,
                            message = JStr ''Access token cookie not found'' \<rparr>)
       \<and> fst (invoke E c w) =
           Rejected (ApiError \<lparr> errorCode = MissingAccessTokenCookie, httpCode = None,
                            message = JStr ''Access token cookie not found'' \<rparr>)
       \<and> history (snd (invoke E c w)) = history w2 @ [loginRequest E (client w2)]
       \<and> requestsFor DomainRequest (issuedSince w (snd (invoke E c w))) = []"
proof -
  have j: "jar (axiosConfig (client w2)) \<noteq> None"
    using ejp_frame(7)[OF path] eac_node_jar[OF node] by simp
  have t2: "\<not> truthyStr (impactToken (client w2))"
    using ejp_frame(2)[OF path] notok by (simp add: eac_frame)
  have h2: "history w2 = history w @ (if truthy (jhUserPath (client w)) then []
              else [lookupRequest (client (ensureAxiosConfig E w))])"
    using ejp_frame(1)[OF path] by (simp add: eac_frame)
  have boot: "ensureImpactToken E w =
     (Inl (ApiError \<lparr> errorCode = MissingAccessTokenCookie, httpCode = None,
                            message = JStr ''Access token cookie not found'' \<rparr>),
      w2\<lparr> history := history w2 @ [loginRequest E (client w2)] \<rparr>)"
    using path t2 login j jarc find_absent[OF none]
    by (auto simp: ensureImpactToken_def send_eq loginRequest_def getNodeCookieJar_def
          getValueFromJarCookies_def)
  obtain d where d:
     "history (snd (invoke E c w)) =
         history (snd (ensureImpactToken E w))
         @ (if fst (ensureImpactToken E w) = Inr () then [d] else [])"
     "\<forall>e. fst (ensureImpactToken E w) = Inl e \<longrightarrow>
           fst (invoke E c w) = Rejected (toApiError e)"
    using invoke_frame[of E c w] by blast
  show ?thesis
    using d h2 by (simp add: boot issuedSince_def requestsFor_def loginRequest_def lookupRequest_def)
qed

theorem jar_without_access_token_rejects_witness:
  "isNode (exampleEnv True (ok (JObj [])) [\<lparr> key = ''theme'', val = ''dark'' \<rparr>] [])
   \<and> ensureJhUserPath (exampleEnv True (ok (JObj [])) [\<lparr> key = ''theme'', val = ''dark'' \<rparr>] [])
        (ensureAxiosConfig
           (exampleEnv True (ok (JObj [])) [\<lparr> key = ''theme'', val = ''dark'' \<rparr>] []) alice)
       = (Inr (), ensureAxiosConfig
           (exampleEnv True (ok (JObj [])) [\<lparr> key = ''theme'', val = ''dark'' \<rparr>] []) alice)
   \<and> \<not> truthyStr (impactToken (client alice))
   \<and> map key [\<lparr> key = ''theme'', val = ''dark'' \<rparr>] = [''theme'']
   \<and> fst (invoke (exampleEnv True (ok (JObj [])) [\<lparr> key = ''theme'', val = ''dark'' \<rparr>] [])
        GetWorkspaces alice) =
       Rejected (ApiError \<lparr> errorCode = MissingAccessTokenCookie, httpCode = None,
                            message = JStr ''Access token cookie not found'' \<rparr>)
   \<and> map purpose (history (snd (invoke
        (exampleEnv True (ok (JObj [])) [\<lparr> key = ''theme'', val = ''dark'' \<rparr>] [])
        GetWorkspaces alice))) = [LoginExchange]"
proof -
  define E where "E = exampleEnv True (ok (JObj [])) [\<lparr> key = ''theme'', val = ''dark'' \<rparr>] []"
  define w2 where "w2 = ensureAxiosConfig E alice"
  have node: "isNode E"
    by (simp add: E_def exampleEnv_def)
  have path: "ensureJhUserPath E (ensureAxiosConfig E alice) = (Inr (), w2)"
    unfolding w2_def by (rule ejp_held) (simp add: eac_frame alice_client)
  have notok: "\<not> truthyStr (impactToken (client alice))"
    by (simp add: alice_client)
  have login: "http E (history w2) (loginRequest E (client w2)) = Inr \<lparr> status = 200, data = JObj [] \<rparr>"
    by (simp add: E_def exampleEnv_def ok_def)
  have jarc: "jarGetCookies E (the (jar (axiosConfig (client w2))))
                 (history w2 @ [loginRequest E (client w2)])
                 (baseUrl (client w2) @ template E (jhUserPath (client w2)))
               = Inr [\<lparr> key = ''theme'', val = ''dark'' \<rparr>]"
    by (simp add: E_def exampleEnv_def)
  have none: "\<forall>c\<in>set [\<lparr> key = ''theme'', val = ''dark'' \<rparr>]. key c \<noteq> ''access_token''"
    by simp
  have hw2: "history w2 = []"
    by (simp add: w2_def eac_frame alice_client)
  from jar_without_access_token_rejects[OF node path notok login jarc none, of GetWorkspaces]
  have "fst (invoke E GetWorkspaces alice) =
           Rejected (ApiError \<lparr> errorCode = MissingAccessTokenCookie, httpCode = None,
                            message = JStr ''Access token cookie not found'' \<rparr>)
       \<and> map purpose (history (snd (invoke E GetWorkspaces alice))) = [LoginExchange]"
    by (simp add: hw2 loginRequest_def)
  then show ?thesis
    using node path notok
    by (simp add: E_def[symmetric] w2_def[symmetric])
qed

section \<open>The life of a client\<close>

text \<open>
  Claim C6. Along any run of domain calls and \<open>setImpactToken\<close> calls made one after
  the other: from a state that holds a routing path no gateway lookup is issued, and
  from a state that holds a session token no login exchange is issued, provided
  \<open>setImpactToken\<close> is never given the empty string (which would leave no token
  held). For a client constructed with a routing path, respectively a session token,
  the whole history has no gateway lookup, respectively no login exchange.
\<close>

theorem resolved_once_per_lifetime:
  "history (run E acts w) = history w @ issuedSince w (run E acts w)
   \<and> (truthy (jhUserPath (client w)) \<longrightarrow>
        requestsFor GatewayLookup (issuedSince w (run E acts w)) = [])
   \<and> (truthyStr (impactToken (client w)) \<and> SetImpactToken [] \<notin> set acts \<longrightarrow>
        requestsFor LoginExchange (issuedSince w (run E acts w)) = [])
   \<and> (newApi args = Inr a \<and> truthyStr (argJupyterHubUserPath args) \<longrightarrow>
        requestsFor GatewayLookup (history (run E acts (start a))) = [])
   \<and> (newApi args = Inr a \<and> truthyStr (argImpactToken args) \<and> SetImpactToken [] \<notin> set acts \<longrightarrow>
        requestsFor LoginExchange (history (run E acts (start a))) = [])"
proof -
  obtain new where new: "history (run E acts w) = history w @ new"
     "truthy (jhUserPath (client w)) \<longrightarrow> requestsFor GatewayLookup new = []"
     "truthyStr (impactToken (client w)) \<and> SetImpactToken [] \<notin> set acts \<longrightarrow>
          requestsFor LoginExchange new = []"
    using run_frame[of E acts w] by blast
  obtain new0 where new0: "history (run E acts (start a)) = history (start a) @ new0"
     "truthy (jhUserPath (client (start a))) \<longrightarrow> requestsFor GatewayLookup new0 = []"
     "truthyStr (impactToken (client (start a))) \<and> SetImpactToken [] \<notin> set acts \<longrightarrow>
          requestsFor LoginExchange new0 = []"
    using run_frame[of E acts "start a"] by blast
  have s: "history (start a) = []" "client (start a) = a"
    by (simp_all add: start_def)
  show ?thesis
    using new new0 newApi_path[of args a] newApi_token[of args a]
    by (auto simp: issuedSince_def s)
qed

theorem resolved_once_per_lifetime_witness:
  "truthy (jhUserPath (client (setImpactToken ''abc'' alice)))
   \<and> truthyStr (impactToken (client (setImpactToken ''abc'' alice)))
   \<and> SetImpactToken [] \<notin> set [Call GetWorkspaces, SetImpactToken ''xyz'', Call (GetCases ''e1'' ''w1'')]
   \<and> newApi (aliceArgs\<lparr> argImpactToken := Some ''abc'' \<rparr>)
       = Inr (client (setImpactToken ''abc'' alice))
   \<and> truthyStr (argJupyterHubUserPath (aliceArgs\<lparr> argImpactToken := Some ''abc'' \<rparr>))
   \<and> truthyStr (argImpactToken (aliceArgs\<lparr> argImpactToken := Some ''abc'' \<rparr>))
   \<and> requestsFor GatewayLookup (history (run (exampleEnv True (ok (JObj [])) [] [])
        [Call GetWorkspaces, SetImpactToken ''xyz'', Call (GetCases ''e1'' ''w1'')]
        (start (client (setImpactToken ''abc'' alice))))) = []
   \<and> requestsFor LoginExchange (history (run (exampleEnv True (ok (JObj [])) [] [])
        [Call GetWorkspaces, SetImpactToken ''xyz'', Call (GetCases ''e1'' ''w1'')]
        (start (client (setImpactToken ''abc'' alice))))) = []
   \<and> map purpose (history (run (exampleEnv True (ok (JObj [])) [] [])
        [Call GetWorkspaces, SetImpactToken ''xyz'', Call (GetCases ''e1'' ''w1'')]
        (start (client (setImpactToken ''abc'' alice))))) = [DomainRequest, DomainRequest]"
proof -
  define E where "E = exampleEnv True (ok (JObj [])) [] []"
  define acts where
    "acts = [Call GetWorkspaces, SetImpactToken ''xyz'', Call (GetCases ''e1'' ''w1'')]"
  define args where "args = aliceArgs\<lparr> argImpactToken := Some ''abc'' \<rparr>"
  define a where "a = client (setImpactToken ''abc'' alice)"
  have h1: "truthy (jhUserPath (client (setImpactToken ''abc'' alice)))"
    by (simp add: setImpactToken_frame alice_client)
  have h2: "truthyStr (impactToken (client (setImpactToken ''abc'' alice)))"
    by (simp add: setImpactToken_frame)
  have h3: "SetImpactToken [] \<notin> set acts"
    by (simp add: acts_def)
  have h4: "newApi args = Inr a"
    by (simp add: args_def a_def eval_defs
          alice_def aliceArgs_def start_def)
  have h5: "truthyStr (argJupyterHubUserPath args)" "truthyStr (argImpactToken args)"
    by (simp_all add: args_def aliceArgs_def)
  have ev: "map purpose (history (run E acts (start a))) = [DomainRequest, DomainRequest]"
    by (simp add: E_def acts_def a_def eval_defs
          alice_def aliceArgs_def exampleEnv_def ok_def start_def)
  from resolved_once_per_lifetime[of E acts "start a" args a] h3 h4 h5
  have "requestsFor GatewayLookup (history (run E acts (start a))) = []
      \<and> requestsFor LoginExchange (history (run E acts (start a))) = []"
    by blast
  then show ?thesis
    using h1 h2 h3 h4 h5 ev
    by (simp add: E_def[symmetric] acts_def[symmetric] args_def[symmetric] a_def[symmetric])
qed

text \<open>
  Claim C2, with the login path the code has. For the client of the scenario, whatever
  the environment and whichever domain operation is called first, the call issues
  exactly one login exchange, a POST to
  \<open>https://host/user/alice/impact/api/login\<close> with body \<open>{"secretKey":"sk_abc"}\<close>,
  and no run of the client ever issues a gateway lookup.
\<close>

theorem scenario_first_call_logs_in_once:
  "fromImpactApiKey ''sk_abc'' (Some ''tok123'') (Some ''/user/alice/'') ''https://host''
     = Inr (client alice)
   \<and> history alice = []
   \<and> map (\<lambda>r. (verb r, url r, body r))
        (requestsFor LoginExchange (history (snd (invoke E c alice))))
      = [(POST, ''https://host/user/alice/impact/api/login'',
          JObj [(''secretKey'', JStr ''sk_abc'')])]
   \<and> requestsFor GatewayLookup (history (run E acts alice)) = []"
proof -
  obtain r wb where b: "ensureImpactToken E alice = (r, wb)" by fastforce
  have p: "ensureJhUserPath E (ensureAxiosConfig E alice) = (Inr (), ensureAxiosConfig E alice)"
    by (rule ejp_held) (simp add: eac_frame alice_client)
  have hb: "history wb = [loginRequest E (client (ensureAxiosConfig E alice))]"
    using eit_frame(1)[OF b] by (simp add: p alice_client)
  obtain d where d: "purpose d = DomainRequest"
     "history (snd (invoke E c alice)) = history wb @ (if r = Inr () then [d] else [])"
    using invoke_frame[of E c alice] b by auto
  have login: "map (\<lambda>r. (verb r, url r, body r))
        (requestsFor LoginExchange (history (snd (invoke E c alice))))
      = [(POST, ''https://host/user/alice/impact/api/login'',
          JObj [(''secretKey'', JStr ''sk_abc'')])]"
    using d hb
    by (simp add: requestsFor_def loginRequest_def outgoing_def loginUrl_def loginBody_def
          template_def eac_frame alice_client)
  obtain new where new: "history (run E acts alice) = history alice @ new"
     "truthy (jhUserPath (client alice)) \<longrightarrow> requestsFor GatewayLookup new = []"
    using run_frame[of E acts alice] by blast
  then have "requestsFor GatewayLookup (history (run E acts alice)) = []"
    by (simp add: alice_client)
  with login show ?thesis
    by (simp add: alice_client)
qed

text \<open>
  The login exchange of the scenario does not go to
  \<open>https://host/user/alice/service/api/login\<close>; no request of the first call does.
\<close>

theorem scenario_login_url_counterexample:
  "map url (requestsFor LoginExchange (history (snd (invoke
       (exampleEnv True (ok (JObj [])) [\<lparr> key = ''access_token'', val = ''abc'' \<rparr>] [])
       GetWorkspaces alice))))
     = [''https://host/user/alice/impact/api/login'']
   \<and> ''https://host/user/alice/service/api/login'' \<notin> set (map url (history (snd (invoke
       (exampleEnv True (ok (JObj [])) [\<lparr> key = ''access_token'', val = ''abc'' \<rparr>] [])
       GetWorkspaces alice))))"
  by (simp add: eval_defs
          alice_def aliceArgs_def exampleEnv_def ok_def start_def requestsFor_def)

section \<open>Transport failures of domain requests\<close>

text \<open>
  Claim C1, as far as the code goes. After a successful bootstrap a domain call issues
  one domain request. If the transport fails it with \<open>e\<close>, the promise of every
  operation but \<open>getExperimentTrajectories\<close> rejects with \<open>toApiError e\<close>; the promise
  of \<open>getExperimentTrajectories\<close>, whose request has no \<open>catch\<close>, is never settled.
\<close>

theorem transport_failure_of_domain_request:
  assumes "ensureImpactToken E w = (Inr (), w1)"
  shows "\<exists>d. purpose d = DomainRequest
     \<and> history (snd (invoke E c w)) = history w1 @ [d]
     \<and> (\<forall>e. http E (history w1) d = Inl e \<longrightarrow>
           fst (invoke E c w) =
             (if (\<exists>ex vs ws. c = GetExperimentTrajectories ex vs ws) then Pending
              else Rejected (toApiError e)))"
proof -
  obtain issue f where sh: "domainSend E issue"
     "invoke E c = withSession E issue
       (if (\<exists>ex vs ws. c = GetExperimentTrajectories ex vs ws) then thenResolve f
        else catchReject \<circ> thenResolve f)"
    using invoke_handlers by blast
  obtain m u bd hs where iss: "issue w1 = send E DomainRequest m u bd hs w1"
    using sh(1) unfolding domainSend_def by blast
  show ?thesis
    using assms iss
    by (intro exI[of _ "outgoing DomainRequest m u bd hs (client w1)"])
       (simp add: sh(2) withSession_def send_eq thenResolve_def catchReject_def reject_def)
qed

theorem transport_failure_of_domain_request_witness:
  "ensureImpactToken (exampleEnv True (failed 500) [] []) (setImpactToken ''abc'' alice)
     = (Inr (), ensureAxiosConfig (exampleEnv True (failed 500) [] []) (setImpactToken ''abc'' alice))
   \<and> fst (invoke (exampleEnv True (failed 500) [] [])
        (GetExperimentTrajectories ''e1'' [''x''] ''w1'') (setImpactToken ''abc'' alice)) = Pending
   \<and> fst (invoke (exampleEnv True (failed 500) [] [])
        (GetCaseTrajectories ''c1'' ''e1'' [''x''] ''w1'') (setImpactToken ''abc'' alice))
       = Rejected (ApiError \<lparr> errorCode = UnknownApiError, httpCode = Some 500,
                               message = JStr ''Api Error'' \<rparr>)"
proof -
  define E where "E = exampleEnv True (failed 500) [] []"
  define w where "w = setImpactToken ''abc'' alice"
  have boot: "ensureImpactToken E w = (Inr (), ensureAxiosConfig E w)"
    by (simp add: ensureImpactToken_def ejp_held eac_frame w_def setImpactToken_frame alice_client)
  have fails: "http E h d = Inl (AxiosError \<lparr> response = Some \<lparr> status = 500, data = JUndefined \<rparr> \<rparr>)"
    for h d
    by (simp add: E_def exampleEnv_def failed_def)
  have conv: "toApiError (AxiosError \<lparr> response = Some \<lparr> status = 500, data = JUndefined \<rparr> \<rparr>)
     = ApiError \<lparr> errorCode = UnknownApiError, httpCode = Some 500, message = JStr ''Api Error'' \<rparr>"
    by (simp add: toApiError_def responseData_def optMember_def nullish_def)
  from transport_failure_of_domain_request[OF boot, of "GetExperimentTrajectories ''e1'' [''x''] ''w1''"]
    fails
  have p: "fst (invoke E (GetExperimentTrajectories ''e1'' [''x''] ''w1'') w) = Pending"
    by auto
  from transport_failure_of_domain_request[OF boot, of "GetCaseTrajectories ''c1'' ''e1'' [''x''] ''w1''"]
    fails
  have q: "fst (invoke E (GetCaseTrajectories ''c1'' ''e1'' [''x''] ''w1'') w)
     = Rejected (ApiError \<lparr> errorCode = UnknownApiError, httpCode = Some 500,
                               message = JStr ''Api Error'' \<rparr>)"
    by (auto simp: conv)
  show ?thesis
    using boot p q by (simp add: E_def[symmetric] w_def[symmetric])
qed

section \<open>The token in the document cookies\<close>

text \<open>
  Claim C10. For every cookie string, \<open>getCookieValue\<close> on the key \<open>access_token\<close>
  returns a value exactly when the string has exactly one entry with that key, and the
  value is then that entry's, up to its first semicolon. With no such entry, or with
  two or more, it returns undefined.
\<close>

theorem document_cookie_token_extraction:
  "getCookieValue ''access_token'' c =
     (case keyEntries ''access_token'' c of
        [e] \<Rightarrow> Some (entryValue ''access_token'' e)
      | _ \<Rightarrow> None)
   \<and> (getCookieValue ''access_token'' c \<noteq> None)
       = (length (keyEntries ''access_token'' c) = 1)"
proof -
  have key: "CHR '';'' \<notin> set ''access_token''"
    by simp
  have v: "getCookieValue ''access_token'' c =
     (case keyEntries ''access_token'' c of
        [e] \<Rightarrow> Some (entryValue ''access_token'' e)
      | _ \<Rightarrow> None)"
    using key by (rule getCookieValue_entries)
  have "(getCookieValue ''access_token'' c \<noteq> None)
       = (length (keyEntries ''access_token'' c) = 1)"
  proof (cases "keyEntries ''access_token'' c")
    case Nil
    then show ?thesis by (simp add: v)
  next
    case (Cons e es)
    then show ?thesis by (cases es) (simp_all add: v)
  qed
  with v show ?thesis by simp
qed

theorem document_cookie_token_extraction_witness:
  "keyEntries ''access_token'' ''a=1; access_token=xyz; b=2'' = [''access_token=xyz'']
   \<and> getCookieValue ''access_token'' ''a=1; access_token=xyz; b=2'' = Some ''xyz''
   \<and> keyEntries ''access_token'' ''access_token=old; access_token=new''
       = [''access_token=old'', ''access_token=new'']
   \<and> getCookieValue ''access_token'' ''access_token=old; access_token=new'' = None
   \<and> keyEntries ''access_token'' ''theme=dark; xaccess_token=1'' = []
   \<and> getCookieValue ''access_token'' ''theme=dark; xaccess_token=1'' = None"
proof -
  have one: "keyEntries ''access_token'' ''a=1; access_token=xyz; b=2'' = [''access_token=xyz'']"
    by (simp add: keyEntries_def cookieEntries_def split_def)
  have two: "keyEntries ''access_token'' ''access_token=old; access_token=new''
       = [''access_token=old'', ''access_token=new'']"
    by (simp add: keyEntries_def cookieEntries_def split_def)
  have zero: "keyEntries ''access_token'' ''theme=dark; xaccess_token=1'' = []"
    by (simp add: keyEntries_def cookieEntries_def split_def)
  show ?thesis
    using document_cookie_token_extraction[of "''a=1; access_token=xyz; b=2''"]
      document_cookie_token_extraction[of "''access_token=old; access_token=new''"]
      document_cookie_token_extraction[of "''theme=dark; xaccess_token=1''"]
    by (simp add: one two zero entryValue_def)
qed

text \<open>
  Claim C5. In a browser-like process, for a client in any state it can reach after
  construction: when the bootstrap reaches the login exchange, the login exchange
  succeeds and the document cookies then hold no \<open>access_token\<close> entry, the bootstrap
  succeeds, the session token stays undefined, and neither the configuration nor the
  instance has the \<open>Impact-Authorization\<close> header.
\<close>

theorem ambient_missing_cookie_is_tolerated:
  assumes browser: "\<not> isNode E"
    and made: "newApi args = Inr a"
    and reached: "w = run E acts (start a)"
    and path: "ensureJhUserPath E (ensureAxiosConfig E w) = (Inr (), w2)"
    and notok: "\<not> truthyStr (impactToken (client w))"
    and login: "http E (history w2) (loginRequest E (client w2)) = Inr resp"
    and nocookie: "keyEntries ''access_token''
                     (documentCookie E (history w2 @ [loginRequest E (client w2)])) = []"
  shows "fst (ensureImpactToken E w) = Inr ()
       \<and> impactToken (client (snd (ensureImpactToken E w))) = None
       \<and> headers (axiosConfig (client (snd (ensureImpactToken E w)))) ''Impact-Authorization'' = None
       \<and> headers (axios (client (snd (ensureImpactToken E w)))) ''Impact-Authorization'' = None
       \<and> history (snd (ensureImpactToken E w)) = history w2 @ [loginRequest E (client w2)]"
proof -
  have cw: "coherent E (client w)"
    unfolding reached using coherent_new[OF made] by (intro coherent_run) (simp add: start_def)
  have c2: "coherent E (client w2)"
    using coherent_ejp[OF path] coherent_eac[OF cw] by simp
  have t2: "\<not> truthyStr (impactToken (client w2))"
    using ejp_frame(2)[OF path] notok by (simp add: eac_frame)
  have j2: "jar (axiosConfig (client w2)) = None"
       "headers (axiosConfig (client w2)) ''Impact-Authorization'' = None"
       "axios (client w2) = axiosConfig (client w2)"
    using c2 t2 browser by (simp_all add: coherent_def)
  let ?w3 = "w2\<lparr> history := history w2 @ [loginRequest E (client w2)] \<rparr>"
  let ?w4 = "?w3\<lparr> client := (client ?w3)\<lparr> impactToken := None \<rparr> \<rparr>"
  have idle: "ensureAxiosConfig E ?w4 = ?w4"
    using browser by (intro eac_browser_idle) simp_all
  have boot: "ensureImpactToken E w = (Inr (), ?w4)"
    using path t2 login j2(1) no_entry_no_value[OF nocookie] idle
    by (simp add: ensureImpactToken_def send_eq loginRequest_def getNodeCookieJar_def)
  show ?thesis
    using j2 by (simp add: boot)
qed

theorem ambient_missing_cookie_is_tolerated_witness:
  "\<not> isNode (exampleEnv False (ok (JObj [])) [] ''theme=dark'')
   \<and> newApi aliceArgs = Inr (client alice)
   \<and> alice = run (exampleEnv False (ok (JObj [])) [] ''theme=dark'') [] (start (client alice))
   \<and> ensureJhUserPath (exampleEnv False (ok (JObj [])) [] ''theme=dark'')
        (ensureAxiosConfig (exampleEnv False (ok (JObj [])) [] ''theme=dark'') alice)
       = (Inr (), alice)
   \<and> \<not> truthyStr (impactToken (client alice))
   \<and> http (exampleEnv False (ok (JObj [])) [] ''theme=dark'') (history alice)
        (loginRequest (exampleEnv False (ok (JObj [])) [] ''theme=dark'') (client alice))
       = Inr \<lparr> status = 200, data = JObj [] \<rparr>
   \<and> keyEntries ''access_token'' ''theme=dark'' = []
   \<and> fst (ensureImpactToken (exampleEnv False (ok (JObj [])) [] ''theme=dark'') alice) = Inr ()
   \<and> impactToken (client (snd (ensureImpactToken
         (exampleEnv False (ok (JObj [])) [] ''theme=dark'') alice))) = None
   \<and> headers (axiosConfig (client (snd (ensureImpactToken
         (exampleEnv False (ok (JObj [])) [] ''theme=dark'') alice)))) ''Impact-Authorization'' = None
   \<and> map purpose (history (snd (ensureImpactToken
         (exampleEnv False (ok (JObj [])) [] ''theme=dark'') alice))) = [LoginExchange]"
proof -
  define E where "E = exampleEnv False (ok (JObj [])) [] ''theme=dark''"
  have browser: "\<not> isNode E"
    by (simp add: E_def exampleEnv_def)
  have made: "newApi aliceArgs = Inr (client alice)"
    by (rule alice_client)
  have reached: "alice = run E [] (start (client alice))"
    by (simp add: alice_def start_def)
  have notok: "\<not> truthyStr (impactToken (client alice))"
    by (simp add: alice_client)
  have idle: "ensureAxiosConfig E alice = alice"
    using browser notok by (rule eac_browser_idle)
  have path: "ensureJhUserPath E (ensureAxiosConfig E alice) = (Inr (), alice)"
    unfolding idle by (rule ejp_held) (simp add: alice_client)
  have login: "http E (history alice) (loginRequest E (client alice))
       = Inr \<lparr> status = 200, data = JObj [] \<rparr>"
    by (simp add: E_def exampleEnv_def ok_def)
  have doc: "documentCookie E (history alice @ [loginRequest E (client alice)]) = ''theme=dark''"
    by (simp add: E_def exampleEnv_def)
  have zero: "keyEntries ''access_token'' ''theme=dark'' = []"
    by (simp add: keyEntries_def cookieEntries_def split_def)
  have nocookie: "keyEntries ''access_token''
       (documentCookie E (history alice @ [loginRequest E (client alice)])) = []"
    unfolding doc by (rule zero)
  from ambient_missing_cookie_is_tolerated[OF browser made reached path notok login nocookie]
  have "fst (ensureImpactToken E alice) = Inr ()
      \<and> impactToken (client (snd (ensureImpactToken E alice))) = None
      \<and> headers (axiosConfig (client (snd (ensureImpactToken E alice)))) ''Impact-Authorization''
          = None
      \<and> map purpose (history (snd (ensureImpactToken E alice))) = [LoginExchange]"
    by (simp add: alice_client loginRequest_def)
  then show ?thesis
    using browser made reached path notok login zero
    by (simp add: E_def[symmetric])
qed

section \<open>Further properties\<close>

text \<open>
  Rebuilding the transport configuration when it is stale is idempotent: a second
  \<open>ensureAxiosConfig\<close> right after the first changes nothing.
\<close>

theorem ensureAxiosConfig_idempotent: "ensureAxiosConfig E (ensureAxiosConfig E w) = ensureAxiosConfig E w"
  by (cases "impactToken (client w)")
     (auto simp: ensureAxiosConfig_def isConfiguredForNode_def isConfiguredForImpact_def
        authHeaders_def Let_def)

text \<open>
  The error classifier returns every error that is not a transport error unchanged, and
  classifying twice is classifying once.
\<close>

theorem toApiError_keeps_other_errors:
  "toApiError (ApiError x) = ApiError x
   \<and> toApiError TypeError = TypeError
   \<and> toApiError (OtherError s) = OtherError s
   \<and> toApiError (toApiError e) = toApiError e"
  by (cases e) (simp_all add: toApiError_def)

text \<open>
  In a headless process, for a client in any state it can reach after construction:
  when the bootstrap reaches the login exchange, the login exchange succeeds and the
  jar's cookies for the routing-path URL hold an \<open>access_token\<close> with a non-empty
  value, the bootstrap succeeds, the value becomes the session token, and the instance
  is rebuilt with the session header for it and a fresh jar.
\<close>

theorem jar_token_is_acquired:
  assumes node: "isNode E"
    and made: "newApi args = Inr a"
    and reached: "w = run E acts (start a)"
    and path: "ensureJhUserPath E (ensureAxiosConfig E w) = (Inr (), w2)"
    and notok: "\<not> truthyStr (impactToken (client w))"
    and login: "http E (history w2) (loginRequest E (client w2)) = Inr resp"
    and jarc: "jarGetCookies E (the (jar (axiosConfig (client w2))))
                 (history w2 @ [loginRequest E (client w2)])
                 (baseUrl (client w2) @ template E (jhUserPath (client w2))) = Inr cookies"
    and found: "find (\<lambda>c. key c = ''access_token'') cookies = Some ck"
    and nonempty: "val ck \<noteq> []"
  shows "fst (ensureImpactToken E w) = Inr ()
       \<and> impactToken (client (snd (ensureImpactToken E w))) = Some (val ck)
       \<and> headers (axios (client (snd (ensureImpactToken E w)))) ''Impact-Authorization''
           = Some (''Bearer '' @ val ck)
       \<and> jar (axios (client (snd (ensureImpactToken E w)))) = Some (jarsCreated w2)
       \<and> history (snd (ensureImpactToken E w)) = history w2 @ [loginRequest E (client w2)]"
proof -
  have cw: "coherent E (client w)"
    unfolding reached using coherent_new[OF made] by (intro coherent_run) (simp add: start_def)
  have c2: "coherent E (client w2)"
    using coherent_ejp[OF path] coherent_eac[OF cw] by simp
  have t2: "\<not> truthyStr (impactToken (client w2))"
    using ejp_frame(2)[OF path] notok by (simp add: eac_frame)
  have j: "jar (axiosConfig (client w2)) \<noteq> None"
    using ejp_frame(7)[OF path] eac_node_jar[OF node] by simp
  have h2: "headers (axiosConfig (client w2)) ''Impact-Authorization'' = None"
    using c2 t2 by (simp add: coherent_def)
  define w4 where "w4 = w2\<lparr> history := history w2 @ [loginRequest E (client w2)],
     client := (client w2)\<lparr> impactToken := Some (val ck) \<rparr> \<rparr>"
  have boot: "ensureImpactToken E w = (Inr (), ensureAxiosConfig E w4)"
    using path t2 login j jarc found
    by (auto simp: ensureImpactToken_def send_eq loginRequest_def getNodeCookieJar_def
          getValueFromJarCookies_def w4_def)
  have w4: "impactToken (client w4) = Some (val ck)"
      "history w4 = history w2 @ [loginRequest E (client w2)]"
      "jarsCreated w4 = jarsCreated w2"
      "jhToken (client w4) = jhToken (client w2)"
      "\<not> isConfiguredForImpact (client w4)"
    using h2 by (simp_all add: w4_def isConfiguredForImpact_def)
  have re: "axios (client (ensureAxiosConfig E w4)) =
     \<lparr> headers = authHeaders (jhToken (client w2)) (Some (val ck)),
       jar = Some (jarsCreated w2) \<rparr>"
    using node nonempty w4
    by (simp add: ensureAxiosConfig_def Let_def)
  show ?thesis
    using nonempty w4(1,2) by (simp add: boot re eac_frame authHeaders_def)
qed

theorem jar_token_is_acquired_witness:
  "isNode (exampleEnv True (ok (JObj [])) [\<lparr> key = ''access_token'', val = ''abc'' \<rparr>] [])
   \<and> newApi aliceArgs = Inr (client alice)
   \<and> alice = run (exampleEnv True (ok (JObj [])) [\<lparr> key = ''access_token'', val = ''abc'' \<rparr>] [])
        [] (start (client alice))
   \<and> \<not> truthyStr (impactToken (client alice))
   \<and> find (\<lambda>c. key c = ''access_token'') [\<lparr> key = ''access_token'', val = ''abc'' \<rparr>]
       = Some \<lparr> key = ''access_token'', val = ''abc'' \<rparr>
   \<and> fst (ensureImpactToken
        (exampleEnv True (ok (JObj [])) [\<lparr> key = ''access_token'', val = ''abc'' \<rparr>] []) alice)
       = Inr ()
   \<and> impactToken (client (snd (ensureImpactToken
        (exampleEnv True (ok (JObj [])) [\<lparr> key = ''access_token'', val = ''abc'' \<rparr>] []) alice)))
       = Some ''abc''
   \<and> headers (axios (client (snd (ensureImpactToken
        (exampleEnv True (ok (JObj [])) [\<lparr> key = ''access_token'', val = ''abc'' \<rparr>] []) alice))))
        ''Impact-Authorization'' = Some ''Bearer abc''
   \<and> jar (axios (client (snd (ensureImpactToken
        (exampleEnv True (ok (JObj [])) [\<lparr> key = ''access_token'', val = ''abc'' \<rparr>] []) alice))))
       = Some 1"
proof -
  define E where
    "E = exampleEnv True (ok (JObj [])) [\<lparr> key = ''access_token'', val = ''abc'' \<rparr>] []"
  define w2 where "w2 = ensureAxiosConfig E alice"
  have node: "isNode E"
    by (simp add: E_def exampleEnv_def)
  have made: "newApi aliceArgs = Inr (client alice)"
    by (rule alice_client)
  have reached: "alice = run E [] (start (client alice))"
    by (simp add: alice_def start_def)
  have path: "ensureJhUserPath E (ensureAxiosConfig E alice) = (Inr (), w2)"
    unfolding w2_def by (rule ejp_held) (simp add: eac_frame alice_client)
  have notok: "\<not> truthyStr (impactToken (client alice))"
    by (simp add: alice_client)
  have login: "http E (history w2) (loginRequest E (client w2)) = Inr \<lparr> status = 200, data = JObj [] \<rparr>"
    by (simp add: E_def exampleEnv_def ok_def)
  have jarc: "jarGetCookies E (the (jar (axiosConfig (client w2))))
                 (history w2 @ [loginRequest E (client w2)])
                 (baseUrl (client w2) @ template E (jhUserPath (client w2)))
               = Inr [\<lparr> key = ''access_token'', val = ''abc'' \<rparr>]"
    by (simp add: E_def exampleEnv_def)
  have found: "find (\<lambda>c. key c = ''access_token'') [\<lparr> key = ''access_token'', val = ''abc'' \<rparr>]
       = Some \<lparr> key = ''access_token'', val = ''abc'' \<rparr>"
    by simp
  have nonempty: "val \<lparr> key = ''access_token'', val = ''abc'' \<rparr> \<noteq> []"
    by simp
  have jc: "jarsCreated w2 = 1"
    by (simp add: w2_def E_def eval_defs
          alice_def aliceArgs_def exampleEnv_def ok_def start_def)
  from jar_token_is_acquired[OF node made reached path notok login jarc found nonempty]
  have "fst (ensureImpactToken E alice) = Inr ()
      \<and> impactToken (client (snd (ensureImpactToken E alice))) = Some ''abc''
      \<and> headers (axios (client (snd (ensureImpactToken E alice)))) ''Impact-Authorization''
          = Some ''Bearer abc''
      \<and> jar (axios (client (snd (ensureImpactToken E alice)))) = Some 1"
    by (simp add: jc)
  then show ?thesis
    using node made reached notok found
    by (simp add: E_def[symmetric])
qed

end
